theory Spec2Isabelle
  imports Complex_Main "HOL-Library.AList" "HOL-Library.Multiset"
begin

section \<open>Python values and exceptions\<close>

text \<open>
  The values that \<^verbatim>\<open>json.loads\<close> and \<^verbatim>\<open>Response.json()\<close> produce: \<^verbatim>\<open>None\<close>, booleans,
  integers, floats, strings, lists and dictionaries. A dictionary is an association list
  in insertion order; a lookup takes the first entry of a key. Strings are byte strings:
  text outside ASCII is not interpreted.
\<close>

datatype json =
    JNull
  | JBool bool
  | JInt int
  | JFloat real
  | JStr string
  | JList "json list"
  | JObj "(string \<times> json) list"

text \<open>The exceptions the modelled code can raise.\<close>

datatype exn =
    AttributeError
  | TypeError
  | KeyError
  | IndexError
  | IntegrityError string
  | BindError

text \<open>Python truth value of a value (\<^verbatim>\<open>if x:\<close>, \<^verbatim>\<open>not x\<close>, \<^verbatim>\<open>x and y\<close>, \<^verbatim>\<open>x or y\<close>).\<close>

fun truthy :: "json \<Rightarrow> bool" where
  "truthy JNull = False"
| "truthy (JBool b) = b"
| "truthy (JInt i) = (i \<noteq> 0)"
| "truthy (JFloat f) = (f \<noteq> 0)"
| "truthy (JStr s) = (s \<noteq> [])"
| "truthy (JList xs) = (xs \<noteq> [])"
| "truthy (JObj kvs) = (kvs \<noteq> [])"

text \<open>\<^verbatim>\<open>d.get(k)\<close> on a dictionary: the value, or \<^verbatim>\<open>None\<close> for a missing key.\<close>

definition dict_get :: "(string \<times> json) list \<Rightarrow> string \<Rightarrow> json" where
  "dict_get kvs k = (case map_of kvs k of None \<Rightarrow> JNull | Some v \<Rightarrow> v)"

text \<open>\<^verbatim>\<open>x.get(k)\<close> on any value: only a dictionary has the method.\<close>

fun py_get :: "json \<Rightarrow> string \<Rightarrow> exn + json" where
  "py_get (JObj kvs) k = Inr (dict_get kvs k)"
| "py_get _ k = Inl AttributeError"

subsection \<open>Strings\<close>

definition starts_with :: "string \<Rightarrow> string \<Rightarrow> bool" where
  "starts_with s p = (take (length p) s = p)"

text \<open>\<^verbatim>\<open>sub in s\<close> for two strings.\<close>

fun contains :: "string \<Rightarrow> string \<Rightarrow> bool" where
  "contains [] sub = (sub = [])"
| "contains (c # cs) sub = (starts_with (c # cs) sub \<or> contains cs sub)"

text \<open>\<^verbatim>\<open>s.lower()\<close> on ASCII letters; other bytes stay.\<close>

definition lower_char :: "char \<Rightarrow> char" where
  "lower_char c =
     (let n = (of_char c :: nat) in if 65 \<le> n \<and> n \<le> 90 then char_of (n + 32) else c)"

definition lower :: "string \<Rightarrow> string" where
  "lower s = map lower_char s"

text \<open>\<^verbatim>\<open>sub in x\<close> with a string on the left: substring of a string, member of a list, key of
  a dictionary; a number, a boolean or \<^verbatim>\<open>None\<close> is not iterable.\<close>

fun py_in :: "string \<Rightarrow> json \<Rightarrow> exn + bool" where
  "py_in sub (JStr s) = Inr (contains s sub)"
| "py_in sub (JList xs) = Inr (JStr sub \<in> set xs)"
| "py_in sub (JObj kvs) = Inr (sub \<in> set (map fst kvs))"
| "py_in sub _ = Inl TypeError"

text \<open>\<^verbatim>\<open>str(n)\<close> for an integer.\<close>

definition digit_char :: "nat \<Rightarrow> char" where
  "digit_char d = char_of (48 + d)"

fun show_nat :: "nat \<Rightarrow> string" where
  "show_nat n = (if n < 10 then [digit_char n] else show_nat (n div 10) @ [digit_char (n mod 10)])"

definition show_int :: "int \<Rightarrow> string" where
  "show_int i = (if i < 0 then CHR ''-'' # show_nat (nat (- i)) else show_nat (nat i))"

subsection \<open>Library calls of the normalizer\<close>

text \<open>
  \<^verbatim>\<open>str.split()\<close>, \<^verbatim>\<open>int(text)\<close> and \<^verbatim>\<open>datetime.strptime(text, fmt).date().isoformat()\<close>
  are library code. They are modelled on ASCII text and the C locale; \<open>None\<close> stands for
  any exception they raise, which is all the callers observe (every call sits in a bare
  \<^verbatim>\<open>except\<close>).
\<close>

definition is_space :: "char \<Rightarrow> bool" where
  "is_space c = (let n = (of_char c :: nat) in (9 \<le> n \<and> n \<le> 13) \<or> (28 \<le> n \<and> n \<le> 32))"

text \<open>\<^verbatim>\<open>s.split()[0]\<close>: the first run of non-blank characters (empty when there is none,
  where Python raises IndexError; \<open>py_int\<close> rejects the empty string alike).\<close>

definition first_token :: "string \<Rightarrow> string" where
  "first_token s = takeWhile (\<lambda>c. \<not> is_space c) (dropWhile is_space s)"

definition digit_val :: "char \<Rightarrow> nat option" where
  "digit_val c = (let n = (of_char c :: nat) in if 48 \<le> n \<and> n \<le> 57 then Some (n - 48) else None)"

text \<open>Digits after the first one; a single underscore may sit between two digits.\<close>

fun int_digits :: "nat \<Rightarrow> string \<Rightarrow> nat option" where
  "int_digits acc [] = Some acc"
| "int_digits acc [c] =
     (case digit_val c of None \<Rightarrow> None | Some v \<Rightarrow> Some (acc * 10 + v))"
| "int_digits acc (c # d # cs) =
     (if c = CHR ''_''
      then (case digit_val d of None \<Rightarrow> None | Some v \<Rightarrow> int_digits (acc * 10 + v) cs)
      else (case digit_val c of None \<Rightarrow> None | Some v \<Rightarrow> int_digits (acc * 10 + v) (d # cs)))"

definition unsigned_int :: "string \<Rightarrow> nat option" where
  "unsigned_int s =
     (case s of
        [] \<Rightarrow> None
      | c # cs \<Rightarrow>
          (case digit_val c of
             None \<Rightarrow> None
           | Some v \<Rightarrow>
               if length (filter (\<lambda>x. digit_val x \<noteq> None) s) > 4300 then None
               else int_digits v cs))"

text \<open>\<^verbatim>\<open>int(tok)\<close> for a token without blanks: an optional sign, then decimal digits. More
  than 4300 digits are a ValueError (the interpreter's default limit).\<close>

definition py_int :: "string \<Rightarrow> int option" where
  "py_int tok =
     (case tok of
        [] \<Rightarrow> None
      | c # cs \<Rightarrow>
          if c = CHR ''-'' then map_option (\<lambda>n. - int n) (unsigned_int cs)
          else if c = CHR ''+'' then map_option int (unsigned_int cs)
          else map_option int (unsigned_int tok))"

text \<open>Calendar dates, as \<^verbatim>\<open>datetime.date(y, m, d)\<close> accepts them, and their ISO text.\<close>

definition is_leap :: "nat \<Rightarrow> bool" where
  "is_leap y = (y mod 4 = 0 \<and> (y mod 100 \<noteq> 0 \<or> y mod 400 = 0))"

definition days_in_month :: "nat \<Rightarrow> nat \<Rightarrow> nat" where
  "days_in_month y m =
     (if m = 2 then (if is_leap y then 29 else 28)
      else if m = 4 \<or> m = 6 \<or> m = 9 \<or> m = 11 then 30 else 31)"

definition pad :: "nat \<Rightarrow> string \<Rightarrow> string" where
  "pad w s = replicate (w - length s) CHR ''0'' @ s"

definition date_iso :: "nat \<Rightarrow> nat \<Rightarrow> nat \<Rightarrow> string option" where
  "date_iso y m d =
     (if 1 \<le> y \<and> 1 \<le> m \<and> m \<le> 12 \<and> 1 \<le> d \<and> d \<le> days_in_month y m
      then Some (pad 4 (show_nat y) @ ''-'' @ pad 2 (show_nat m) @ ''-'' @ pad 2 (show_nat d))
      else None)"

text \<open>
  The directives of the two formats, as the library's regular expressions read them.
  Each returns the alternatives in the order the expression tries them, with the text
  left after each:
  \<^verbatim>\<open>%d\<close> is \<^verbatim>\<open>3[0-1]|[1-2]\d|0[1-9]|[1-9]| [1-9]\<close>,
  \<^verbatim>\<open>%m\<close> is \<^verbatim>\<open>1[0-2]|0[1-9]|[1-9]\<close>,
  \<^verbatim>\<open>%Y\<close> is \<^verbatim>\<open>\d\d\d\d\<close>,
  \<^verbatim>\<open>%b\<close> is one of \<^verbatim>\<open>jan\<close> ... \<^verbatim>\<open>dec\<close> in any letter case.
\<close>

definition two_digits :: "string \<Rightarrow> (nat \<times> string) option" where
  "two_digits s =
     (case s of
        a # b # rest \<Rightarrow>
          (case (digit_val a, digit_val b) of
             (Some x, Some y) \<Rightarrow> Some (10 * x + y, rest)
           | _ \<Rightarrow> None)
      | _ \<Rightarrow> None)"

definition one_digit :: "string \<Rightarrow> (nat \<times> string) option" where
  "one_digit s =
     (case s of
        a # rest \<Rightarrow> (case digit_val a of Some x \<Rightarrow> Some (x, rest) | None \<Rightarrow> None)
      | _ \<Rightarrow> None)"

definition directive_d :: "string \<Rightarrow> (nat \<times> string) list" where
  "directive_d s =
     (case two_digits s of
        Some (n, rest) \<Rightarrow> (if 1 \<le> n \<and> n \<le> 31 then [(n, rest)] else [])
      | None \<Rightarrow> [])
     @ (case one_digit s of
        Some (n, rest) \<Rightarrow> (if 1 \<le> n then [(n, rest)] else [])
      | None \<Rightarrow> [])
     @ (case s of
        c # cs \<Rightarrow>
          (if c = CHR '' '' then
             (case one_digit cs of
                Some (n, rest) \<Rightarrow> (if 1 \<le> n then [(n, rest)] else [])
              | None \<Rightarrow> [])
           else [])
      | [] \<Rightarrow> [])"

definition directive_m :: "string \<Rightarrow> (nat \<times> string) list" where
  "directive_m s =
     (case two_digits s of
        Some (n, rest) \<Rightarrow> (if 1 \<le> n \<and> n \<le> 12 then [(n, rest)] else [])
      | None \<Rightarrow> [])
     @ (case one_digit s of
        Some (n, rest) \<Rightarrow> (if 1 \<le> n then [(n, rest)] else [])
      | None \<Rightarrow> [])"

definition directive_Y :: "string \<Rightarrow> (nat \<times> string) option" where
  "directive_Y s =
     (case two_digits s of
        None \<Rightarrow> None
      | Some (hi, rest) \<Rightarrow>
          (case two_digits rest of
             None \<Rightarrow> None
           | Some (lo, rest') \<Rightarrow> Some (100 * hi + lo, rest')))"

definition month_names :: "string list" where
  "month_names = [''jan'', ''feb'', ''mar'', ''apr'', ''may'', ''jun'',
                  ''jul'', ''aug'', ''sep'', ''oct'', ''nov'', ''dec'']"

fun index_of :: "'a \<Rightarrow> 'a list \<Rightarrow> nat option" where
  "index_of x [] = None"
| "index_of x (y # ys) = (if x = y then Some 0 else map_option Suc (index_of x ys))"

definition directive_b :: "string \<Rightarrow> (nat \<times> string) option" where
  "directive_b s =
     (case index_of (lower (take 3 s)) month_names of
        None \<Rightarrow> None
      | Some i \<Rightarrow> Some (Suc i, drop 3 s))"

text \<open>A blank in a format is \<^verbatim>\<open>\s+\<close>: at least one blank, as many as there are.\<close>

definition blanks :: "string \<Rightarrow> string option" where
  "blanks s = (case s of [] \<Rightarrow> None | c # cs \<Rightarrow> if is_space c then Some (dropWhile is_space cs) else None)"

definition literal :: "char \<Rightarrow> string \<Rightarrow> string option" where
  "literal x s = (case s of [] \<Rightarrow> None | c # cs \<Rightarrow> if c = x then Some cs else None)"

text \<open>The rest of \<^verbatim>\<open>%d %b %Y\<close> after the day: the whole text must be used up.\<close>

definition after_day :: "nat \<times> string \<Rightarrow> string option" where
  "after_day ds =
     (case blanks (snd ds) of
        None \<Rightarrow> None
      | Some s1 \<Rightarrow>
          (case directive_b s1 of
             None \<Rightarrow> None
           | Some (m, s2) \<Rightarrow>
               (case blanks s2 of
                  None \<Rightarrow> None
                | Some s3 \<Rightarrow>
                    (case directive_Y s3 of
                       None \<Rightarrow> None
                     | Some (y, s4) \<Rightarrow> if s4 = [] then date_iso y m (fst ds) else None))))"

text \<open>The rest of \<^verbatim>\<open>%Y-%m-%d\<close> after the month.\<close>

definition after_month :: "nat \<Rightarrow> nat \<times> string \<Rightarrow> string option" where
  "after_month y ms =
     (case literal CHR ''-'' (snd ms) of
        None \<Rightarrow> None
      | Some s1 \<Rightarrow>
          (case directive_d s1 of
             [] \<Rightarrow> None
           | (d, s2) # _ \<Rightarrow> if s2 = [] then date_iso y (fst ms) d else None))"

text \<open>The first alternative of a directive from which the rest of the format matches;
  the expression backtracks over the alternatives only while the match fails, and a date
  the calendar rejects is an error, not a reason to backtrack.\<close>

fun first_match :: "('a \<Rightarrow> bool) \<Rightarrow> 'a list \<Rightarrow> 'a option" where
  "first_match ok [] = None"
| "first_match ok (x # xs) = (if ok x then Some x else first_match ok xs)"

definition day_matches :: "nat \<times> string \<Rightarrow> bool" where
  "day_matches ds =
     (case blanks (snd ds) of
        None \<Rightarrow> False
      | Some s1 \<Rightarrow>
          (case directive_b s1 of
             None \<Rightarrow> False
           | Some (m, s2) \<Rightarrow>
               (case blanks s2 of
                  None \<Rightarrow> False
                | Some s3 \<Rightarrow> directive_Y s3 \<noteq> None)))"

definition month_matches :: "nat \<times> string \<Rightarrow> bool" where
  "month_matches ms =
     (case literal CHR ''-'' (snd ms) of None \<Rightarrow> False | Some s1 \<Rightarrow> directive_d s1 \<noteq> [])"

text \<open>\<^verbatim>\<open>datetime.strptime(s, fmt).date().isoformat()\<close> for the two formats the code uses.\<close>

definition strptime_iso :: "string \<Rightarrow> string \<Rightarrow> string option" where
  "strptime_iso s fmt =
     (if fmt = ''%d %b %Y'' then
        (case first_match day_matches (directive_d s) of
           None \<Rightarrow> None
         | Some ds \<Rightarrow> after_day ds)
      else if fmt = ''%Y-%m-%d'' then
        (case directive_Y s of
           None \<Rightarrow> None
         | Some (y, s1) \<Rightarrow>
             (case literal CHR ''-'' s1 of
                None \<Rightarrow> None
              | Some s2 \<Rightarrow>
                  (case first_match month_matches (directive_m s2) of
                     None \<Rightarrow> None
                   | Some ms \<Rightarrow> after_month y ms)))
      else None)"

section \<open>Response Normalizer: \<^verbatim>\<open>clean_omdb_response\<close>\<close>

text \<open>
  The canonical partial record the normalizer returns. \<^verbatim>\<open>imdb_id\<close>, \<^verbatim>\<open>director\<close>,
  \<^verbatim>\<open>plot\<close> and \<^verbatim>\<open>box_office\<close> hold the response's own value or \<^verbatim>\<open>None\<close> (\<open>JNull\<close>);
  \<^verbatim>\<open>released\<close> and \<^verbatim>\<open>runtime_minutes\<close> hold a parsed value or \<^verbatim>\<open>None\<close>.
\<close>

record omdb =
  imdb_id :: json
  director :: json
  plot :: json
  box_office :: json
  released :: "string option"
  runtime_minutes :: "int option"

text \<open>\<^verbatim>\<open>x if x and x != "N/A" else None\<close>\<close>

definition not_na :: "json \<Rightarrow> json" where
  "not_na x = (if truthy x \<and> x \<noteq> JStr ''N/A'' then x else JNull)"

text \<open>
  \<^verbatim>\<open>
  runtime_minutes = None
  if runtime and "min" in runtime:
      try: runtime_minutes = int(runtime.split()[0])
      except: runtime_minutes = None
  \<close>
  The membership test is outside the \<^verbatim>\<open>try\<close>; \<^verbatim>\<open>split\<close> on a list or a dictionary is
  an AttributeError inside it.
\<close>

definition parse_runtime :: "json \<Rightarrow> exn + int option" where
  "parse_runtime runtime =
     (if \<not> truthy runtime then Inr None
      else
        (case py_in ''min'' runtime of
           Inl e \<Rightarrow> Inl e
         | Inr has_min \<Rightarrow>
             if \<not> has_min then Inr None
             else Inr (case runtime of JStr s \<Rightarrow> py_int (first_token s) | _ \<Rightarrow> None)))"

text \<open>
  \<^verbatim>\<open>
  for fmt in ("%d %b %Y", "%Y-%m-%d"):
      try: released_date = datetime.strptime(released, fmt).date().isoformat(); break
      except: released_date = None
  \<close>
\<close>

fun try_formats :: "string \<Rightarrow> string list \<Rightarrow> string option" where
  "try_formats s [] = None"
| "try_formats s (fmt # fmts) =
     (case strptime_iso s fmt of Some d \<Rightarrow> Some d | None \<Rightarrow> try_formats s fmts)"

definition parse_released :: "json \<Rightarrow> string option" where
  "parse_released rel =
     (if truthy rel \<and> rel \<noteq> JStr ''N/A''
      then (case rel of JStr s \<Rightarrow> try_formats s [''%d %b %Y'', ''%Y-%m-%d''] | _ \<Rightarrow> None)
      else None)"

text \<open>The normalizer: \<open>Inr None\<close> is the return value \<^verbatim>\<open>None\<close>, \<open>Inl\<close> an exception.\<close>

definition clean_omdb_response :: "json \<Rightarrow> exn + omdb option" where
  "clean_omdb_response r =
     (if \<not> truthy r then Inr None
      else
        (case r of
           JObj kvs \<Rightarrow>
             if dict_get kvs ''Response'' = JStr ''False'' then Inr None
             else
               (case parse_runtime (dict_get kvs ''Runtime'') of
                  Inl e \<Rightarrow> Inl e
                | Inr minutes \<Rightarrow>
                    Inr (Some \<lparr>imdb_id = dict_get kvs ''imdbID'',
                               director = not_na (dict_get kvs ''Director''),
                               plot = not_na (dict_get kvs ''Plot''),
                               box_office = not_na (dict_get kvs ''BoxOffice''),
                               released = parse_released (dict_get kvs ''Released''),
                               runtime_minutes = minutes\<rparr>))
         | _ \<Rightarrow> Inl AttributeError))"

section \<open>State of a run\<close>

text \<open>
  What the remote API answers to one request: the request failed (with the exception's
  text), the body was not JSON (HTTP status and the decoder's text), or a JSON document.
\<close>

datatype reply = Failed string | NotJson nat string | Json json

text \<open>
  The three requests the client sends; the first argument is the API key, the year is sent
  only when it is truthy: \<^verbatim>\<open>{"apikey", "t", ["y"]}\<close>, \<^verbatim>\<open>{"apikey", "s", "type": "movie", ["y"]}\<close>
  and \<^verbatim>\<open>{"apikey", "i"}\<close>.
\<close>

datatype request =
    TitleLookup string string "int option"
  | Search string string "int option"
  | IdLookup string json

text \<open>The remote API is the environment: the reply to the \<open>n\<close>-th request of the run.\<close>

type_synonym net = "nat \<Rightarrow> request \<Rightarrow> reply"

record movie_row =
  m_id :: int
  m_title :: string
  m_year :: "int option"
  m_imdb_id :: json
  m_director :: json
  m_plot :: json
  m_box_office :: json
  m_released :: "string option"
  m_runtime_minutes :: "int option"

record rating_row =
  r_user_id :: int
  r_movie_id :: int
  r_rating :: real
  r_timestamp :: "int option"

text \<open>
  Modelled from the spec: the schema file \<^verbatim>\<open>schema.sql\<close> is not part of the sources. The
  store holds the movies table, keyed by \<^verbatim>\<open>id\<close> and with a uniqueness constraint on a
  non-null \<^verbatim>\<open>imdb_id\<close>, and the ratings table. \<open>executed\<close> counts the SQL statements
  that ran to completion. A bound value is stored as it is (column affinity is not modelled);
  \<open>JNull\<close> is SQL NULL.
\<close>

record store =
  movies :: "movie_row list"
  ratings :: "rating_row list"
  executed :: nat

text \<open>
  The state of a run: the module's global flag, the cache dictionary, the requests sent so
  far, the store, and the content of the cache file (\<open>None\<close> when there is no file).
\<close>

record run =
  OMDB_RATE_LIMITED :: bool
  cache :: "(string \<times> json) list"
  net_calls :: "request list"
  db :: store
  cache_file :: "(string \<times> json) list option"

text \<open>\<^verbatim>\<open>load_cache\<close> and \<^verbatim>\<open>save_cache\<close>: the file holds the dictionary as JSON text and is
  rewritten as a whole.\<close>

definition load_cache :: "(string \<times> json) list option \<Rightarrow> (string \<times> json) list" where
  "load_cache file = (case file of None \<Rightarrow> [] | Some c \<Rightarrow> c)"

definition save_cache :: "run \<Rightarrow> run" where
  "save_cache st = st\<lparr>cache_file := Some (cache st)\<rparr>"

section \<open>External Metadata Client: \<^verbatim>\<open>query_omdb\<close>\<close>

text \<open>\<^verbatim>\<open>key = f"{title}||{year}"\<close>\<close>

definition cache_key :: "string \<Rightarrow> int option \<Rightarrow> string" where
  "cache_key title year =
     title @ ''||'' @ (case year of None \<Rightarrow> ''None'' | Some y \<Rightarrow> show_int y)"

text \<open>\<^verbatim>\<open>{"Response": "False", "Error": e}\<close>\<close>

definition failure :: "json \<Rightarrow> json" where
  "failure e = JObj [(''Response'', JStr ''False''), (''Error'', e)]"

definition skipped_response :: json where
  "skipped_response = failure (JStr ''fast-mode or rate-limited: skipped'')"

definition no_key_response :: json where
  "no_key_response = failure (JStr ''No API key set'')"

text \<open>\<^verbatim>\<open>cache[key] = v\<close>\<close>

definition cache_put :: "string \<Rightarrow> json \<Rightarrow> run \<Rightarrow> run" where
  "cache_put key v st = st\<lparr>cache := AList.update key v (cache st)\<rparr>"

text \<open>\<^verbatim>\<open>if year: params["y"] = year\<close>\<close>

definition year_param :: "int option \<Rightarrow> int option" where
  "year_param year = (case year of None \<Rightarrow> None | Some y \<Rightarrow> if y = 0 then None else Some y)"

text \<open>\<^verbatim>\<open>(data.get("Error") or "").lower()\<close>\<close>

definition error_text :: "json \<Rightarrow> exn + string" where
  "error_text data =
     (case py_get data ''Error'' of
        Inl e \<Rightarrow> Inl e
      | Inr v \<Rightarrow>
          if \<not> truthy v then Inr []
          else (case v of JStr s \<Rightarrow> Inr (lower s) | _ \<Rightarrow> Inl AttributeError))"

text \<open>\<^verbatim>\<open>{"Response": "False", "Error": data.get("Error", "rate limited/invalid key")}\<close>\<close>

definition limit_failure :: "json \<Rightarrow> exn + json" where
  "limit_failure data =
     (case data of
        JObj kvs \<Rightarrow>
          Inr (failure (case map_of kvs ''Error'' of
                          None \<Rightarrow> JStr ''rate limited/invalid key''
                        | Some v \<Rightarrow> v))
      | _ \<Rightarrow> Inl AttributeError)"

subsection \<open>Full pipeline (\<^verbatim>\<open>etl.py\<close>)\<close>

text \<open>\<^verbatim>\<open>_call\<close>: any exception of the request or of the JSON decoder becomes a failure
  document carrying its text.\<close>

definition etl_call :: "net \<Rightarrow> request \<Rightarrow> run \<Rightarrow> json \<times> run" where
  "etl_call net req st =
     ((case net (length (net_calls st)) req of
         Failed msg \<Rightarrow> failure (JStr msg)
       | NotJson code msg \<Rightarrow> failure (JStr msg)
       | Json v \<Rightarrow> v),
      st\<lparr>net_calls := net_calls st @ [req]\<rparr>)"

text \<open>\<^verbatim>\<open>x[0]\<close> on a truthy value.\<close>

fun py_index0 :: "json \<Rightarrow> exn + json" where
  "py_index0 (JList (x # xs)) = Inr x"
| "py_index0 (JList []) = Inl IndexError"
| "py_index0 (JStr (c # cs)) = Inr (JStr [c])"
| "py_index0 (JStr []) = Inl IndexError"
| "py_index0 (JObj kvs) = Inl KeyError"
| "py_index0 _ = Inl TypeError"

text \<open>
  The external ID of the first search hit, when the search succeeded and has one:
  \<^verbatim>\<open>
  if search.get("Response") == "True" and search.get("Search"):
      first = search["Search"][0]
      imdb = first.get("imdbID")
      if imdb: ...
  \<close>
\<close>

definition first_hit :: "json \<Rightarrow> exn + json option" where
  "first_hit search =
     (case search of
        JObj kvs \<Rightarrow>
          if dict_get kvs ''Response'' = JStr ''True'' \<and> truthy (dict_get kvs ''Search'')
          then
            (case py_index0 (dict_get kvs ''Search'') of
               Inl e \<Rightarrow> Inl e
             | Inr first \<Rightarrow>
                 (case py_get first ''imdbID'' of
                    Inl e \<Rightarrow> Inl e
                  | Inr imdb \<Rightarrow> Inr (if truthy imdb then Some imdb else None)))
          else Inr None
      | _ \<Rightarrow> Inl AttributeError)"

text \<open>Step 2 of \<^verbatim>\<open>query_omdb\<close>: the search and the detail request, then the fallback
  that stores the original failure \<open>data\<close>.\<close>

definition etl_search :: "string \<Rightarrow> net \<Rightarrow> string \<Rightarrow> int option \<Rightarrow> json \<Rightarrow> run \<Rightarrow> exn + (json \<times> run)" where
  "etl_search k net title year data st1 =
     (let key = cache_key title year;
          (search, st2) = etl_call net (Search k title (year_param year)) st1
      in case first_hit search of
           Inl e \<Rightarrow> Inl e
         | Inr None \<Rightarrow> Inr (data, cache_put key data st2)
         | Inr (Some imdb) \<Rightarrow>
             (let (detail, st3) = etl_call net (IdLookup k imdb) st2
              in case py_get detail ''Response'' of
                   Inl e \<Rightarrow> Inl e
                 | Inr resp \<Rightarrow>
                     if resp = JStr ''True'' then Inr (detail, cache_put key detail st3)
                     else Inr (data, cache_put key data st3)))"

text \<open>Step 1 and the rate-limit detection, once the cache, the fast/flag and the key checks
  have let the call through.\<close>

definition etl_lookup :: "string \<Rightarrow> net \<Rightarrow> string \<Rightarrow> int option \<Rightarrow> run \<Rightarrow> exn + (json \<times> run)" where
  "etl_lookup k net title year st =
     (let key = cache_key title year;
          (data, st1) = etl_call net (TitleLookup k title (year_param year)) st
      in case error_text data of
           Inl e \<Rightarrow> Inl e
         | Inr err \<Rightarrow>
             (case py_get data ''Response'' of
                Inl e \<Rightarrow> Inl e
              | Inr resp \<Rightarrow>
                  if resp = JStr ''True'' then Inr (data, cache_put key data st1)
                  else if contains err ''limit'' \<or> contains err ''invalid api key'' then
                    (case limit_failure data of
                       Inl e \<Rightarrow> Inl e
                     | Inr v \<Rightarrow> Inr (v, cache_put key v (st1\<lparr>OMDB_RATE_LIMITED := True\<rparr>)))
                  else etl_search k net title year data st1))"

text \<open>\<^verbatim>\<open>query_omdb(title, year, cache, fast)\<close> of \<^verbatim>\<open>etl.py\<close>; \<open>api_key\<close> is the module's
  \<^verbatim>\<open>OMDB_API_KEY\<close> (\<^verbatim>\<open>os.getenv\<close>: a string or \<^verbatim>\<open>None\<close>).\<close>

definition etl_query_omdb :: "string option \<Rightarrow> net \<Rightarrow> bool \<Rightarrow> string \<Rightarrow> int option \<Rightarrow> run \<Rightarrow> exn + (json \<times> run)" where
  "etl_query_omdb api_key net fast title year st =
     (let key = cache_key title year
      in case map_of (cache st) key of
           Some v \<Rightarrow> Inr (v, st)
         | None \<Rightarrow>
             if fast \<or> OMDB_RATE_LIMITED st
             then Inr (skipped_response, cache_put key skipped_response st)
             else
               (case api_key of
                  None \<Rightarrow> Inr (no_key_response, cache_put key no_key_response st)
                | Some k \<Rightarrow>
                    if k = [] then Inr (no_key_response, cache_put key no_key_response st)
                    else etl_lookup k net title year st))"

subsection \<open>Enrichment-only pipeline (\<^verbatim>\<open>enrich_missing.py\<close>)\<close>

text \<open>
  \<^verbatim>\<open>
  try:
      r = _session.get(...)
      try: data = r.json()
      except ValueError: data = {"Response": "False", "Error": f"HTTP {r.status_code}"}
  except requests.exceptions.RequestException as e:
      data = {"Response": "False", "Error": f"Network error: {e}"}
  \<close>
\<close>

definition enrich_call :: "net \<Rightarrow> request \<Rightarrow> run \<Rightarrow> json \<times> run" where
  "enrich_call net req st =
     ((case net (length (net_calls st)) req of
         Failed msg \<Rightarrow> failure (JStr (''Network error: '' @ msg))
       | NotJson code msg \<Rightarrow> failure (JStr (''HTTP '' @ show_nat code))
       | Json v \<Rightarrow> v),
      st\<lparr>net_calls := net_calls st @ [req]\<rparr>)"

definition enrich_lookup :: "string \<Rightarrow> net \<Rightarrow> string \<Rightarrow> int option \<Rightarrow> run \<Rightarrow> exn + (json \<times> run)" where
  "enrich_lookup k net title year st =
     (let key = cache_key title year;
          (data, st1) = enrich_call net (TitleLookup k title (year_param year)) st
      in case error_text data of
           Inl e \<Rightarrow> Inl e
         | Inr err \<Rightarrow>
             if contains err ''request limit'' \<or> contains err ''limit reached''
                \<or> contains err ''invalid api key''
             then
               (case limit_failure data of
                  Inl e \<Rightarrow> Inl e
                | Inr v \<Rightarrow> Inr (v, cache_put key v (st1\<lparr>OMDB_RATE_LIMITED := True\<rparr>)))
             else Inr (data, cache_put key data st1))"

text \<open>\<^verbatim>\<open>query_omdb(title, year, cache, fast)\<close> of \<^verbatim>\<open>enrich_missing.py\<close>.\<close>

definition enrich_query_omdb :: "string option \<Rightarrow> net \<Rightarrow> bool \<Rightarrow> string \<Rightarrow> int option \<Rightarrow> run \<Rightarrow> exn + (json \<times> run)" where
  "enrich_query_omdb api_key net fast title year st =
     (let key = cache_key title year
      in case map_of (cache st) key of
           Some v \<Rightarrow> Inr (v, st)
         | None \<Rightarrow>
             if fast \<or> OMDB_RATE_LIMITED st
             then Inr (skipped_response, cache_put key skipped_response st)
             else
               (case api_key of
                  None \<Rightarrow> Inr (no_key_response, cache_put key no_key_response st)
                | Some k \<Rightarrow>
                    if k = [] then Inr (no_key_response, cache_put key no_key_response st)
                    else enrich_lookup k net title year st))"

text \<open>A sequence of client calls within one run; an exception ends it.\<close>

fun etl_query_all :: "string option \<Rightarrow> net \<Rightarrow> bool \<Rightarrow> (string \<times> int option) list \<Rightarrow> run \<Rightarrow> exn + (json list \<times> run)" where
  "etl_query_all api_key net fast [] st = Inr ([], st)"
| "etl_query_all api_key net fast (q # qs) st =
     (case etl_query_omdb api_key net fast (fst q) (snd q) st of
        Inl e \<Rightarrow> Inl e
      | Inr (v, st') \<Rightarrow>
          (case etl_query_all api_key net fast qs st' of
             Inl e \<Rightarrow> Inl e
           | Inr (vs, st'') \<Rightarrow> Inr (v # vs, st'')))"

fun enrich_query_all :: "string option \<Rightarrow> net \<Rightarrow> bool \<Rightarrow> (string \<times> int option) list \<Rightarrow> run \<Rightarrow> exn + (json list \<times> run)" where
  "enrich_query_all api_key net fast [] st = Inr ([], st)"
| "enrich_query_all api_key net fast (q # qs) st =
     (case enrich_query_omdb api_key net fast (fst q) (snd q) st of
        Inl e \<Rightarrow> Inl e
      | Inr (v, st') \<Rightarrow>
          (case enrich_query_all api_key net fast qs st' of
             Inl e \<Rightarrow> Inl e
           | Inr (vs, st'') \<Rightarrow> Inr (v # vs, st'')))"

section \<open>The store\<close>

text \<open>
  Modelled from the spec: the SQL engine behind \<^verbatim>\<open>conn.execute\<close> and \<^verbatim>\<open>cur.execute\<close>.
  A statement first binds its parameters (a list or a dictionary cannot be bound), then
  runs; a statement that would leave two rows with the same non-null \<^verbatim>\<open>imdb_id\<close> raises
  the uniqueness violation and changes nothing.
\<close>

fun bindable :: "json \<Rightarrow> bool" where
  "bindable (JList xs) = False"
| "bindable (JObj kvs) = False"
| "bindable _ = True"

definition unique_msg :: string where
  "unique_msg = ''UNIQUE constraint failed: movies.imdb_id''"

text \<open>Another row than \<open>i\<close> already holds the external ID \<open>v\<close>.\<close>

definition imdb_taken :: "movie_row list \<Rightarrow> int \<Rightarrow> json \<Rightarrow> bool" where
  "imdb_taken rows i v = (v \<noteq> JNull \<and> list_ex (\<lambda>m. m_id m \<noteq> i \<and> m_imdb_id m = v) rows)"

text \<open>SQL \<^verbatim>\<open>COALESCE(a, b)\<close>\<close>

definition coalesce :: "json \<Rightarrow> json \<Rightarrow> json" where
  "coalesce a b = (if a \<noteq> JNull then a else b)"

definition coalesce_opt :: "'a option \<Rightarrow> 'a option \<Rightarrow> 'a option" where
  "coalesce_opt a b = (case a of Some x \<Rightarrow> Some x | None \<Rightarrow> b)"

definition replace_row :: "int \<Rightarrow> movie_row \<Rightarrow> movie_row list \<Rightarrow> movie_row list" where
  "replace_row i new rows = map (\<lambda>m. if m_id m = i then new else m) rows"

section \<open>Upsert Engine, insert-or-merge variant (\<^verbatim>\<open>etl.py\<close>)\<close>

text \<open>The \<^verbatim>\<open>params\<close> dictionary of one movie row.\<close>

record params =
  p_id :: int
  p_title :: string
  p_year :: "int option"
  p_imdb_id :: json
  p_director :: json
  p_plot :: json
  p_box_office :: json
  p_released :: "string option"
  p_runtime :: "int option"

definition params_bindable :: "params \<Rightarrow> bool" where
  "params_bindable p =
     (bindable (p_imdb_id p) \<and> bindable (p_director p) \<and> bindable (p_plot p)
      \<and> bindable (p_box_office p))"

text \<open>\<^verbatim>\<open>INSERT INTO movies (...) VALUES (...)\<close>: the row a new identifier gets.\<close>

definition inserted_row :: "params \<Rightarrow> movie_row" where
  "inserted_row p =
     \<lparr>m_id = p_id p, m_title = p_title p, m_year = p_year p, m_imdb_id = p_imdb_id p,
      m_director = p_director p, m_plot = p_plot p, m_box_office = p_box_office p,
      m_released = p_released p, m_runtime_minutes = p_runtime p\<rparr>"

text \<open>\<^verbatim>\<open>ON CONFLICT(id) DO UPDATE SET\<close> of \<^verbatim>\<open>upsert_sql\<close>: title and year are overwritten,
  the metadata columns are coalesced, \<^verbatim>\<open>imdb_id\<close> among them.\<close>

definition merged_row :: "movie_row \<Rightarrow> params \<Rightarrow> movie_row" where
  "merged_row old p =
     old\<lparr>m_title := p_title p, m_year := p_year p,
         m_imdb_id := coalesce (p_imdb_id p) (m_imdb_id old),
         m_director := coalesce (p_director p) (m_director old),
         m_plot := coalesce (p_plot p) (m_plot old),
         m_box_office := coalesce (p_box_office p) (m_box_office old),
         m_released := coalesce_opt (p_released p) (m_released old),
         m_runtime_minutes := coalesce_opt (p_runtime p) (m_runtime_minutes old)\<rparr>"

text \<open>\<^verbatim>\<open>ON CONFLICT(id) DO UPDATE SET\<close> of \<^verbatim>\<open>fallback_sql\<close>: the same without \<^verbatim>\<open>imdb_id\<close>.\<close>

definition merged_row_no_imdb :: "movie_row \<Rightarrow> params \<Rightarrow> movie_row" where
  "merged_row_no_imdb old p =
     old\<lparr>m_title := p_title p, m_year := p_year p,
         m_director := coalesce (p_director p) (m_director old),
         m_plot := coalesce (p_plot p) (m_plot old),
         m_box_office := coalesce (p_box_office p) (m_box_office old),
         m_released := coalesce_opt (p_released p) (m_released old),
         m_runtime_minutes := coalesce_opt (p_runtime p) (m_runtime_minutes old)\<rparr>"

text \<open>\<^verbatim>\<open>conn.execute(upsert_sql, params)\<close>\<close>

definition exec_upsert :: "store \<Rightarrow> params \<Rightarrow> exn + store" where
  "exec_upsert s p =
     (if \<not> params_bindable p then Inl BindError
      else
        (case find (\<lambda>m. m_id m = p_id p) (movies s) of
           None \<Rightarrow>
             if imdb_taken (movies s) (p_id p) (p_imdb_id p) then Inl (IntegrityError unique_msg)
             else Inr (s\<lparr>movies := movies s @ [inserted_row p], executed := Suc (executed s)\<rparr>)
         | Some old \<Rightarrow>
             if imdb_taken (movies s) (p_id p) (m_imdb_id (merged_row old p))
             then Inl (IntegrityError unique_msg)
             else Inr (s\<lparr>movies := replace_row (p_id p) (merged_row old p) (movies s),
                         executed := Suc (executed s)\<rparr>)))"

text \<open>\<^verbatim>\<open>conn.execute(fallback_sql, params_no_imdb)\<close>\<close>

definition exec_fallback :: "store \<Rightarrow> params \<Rightarrow> exn + store" where
  "exec_fallback s p =
     (if \<not> params_bindable p then Inl BindError
      else
        (case find (\<lambda>m. m_id m = p_id p) (movies s) of
           None \<Rightarrow>
             if imdb_taken (movies s) (p_id p) (p_imdb_id p) then Inl (IntegrityError unique_msg)
             else Inr (s\<lparr>movies := movies s @ [inserted_row p], executed := Suc (executed s)\<rparr>)
         | Some old \<Rightarrow>
             Inr (s\<lparr>movies := replace_row (p_id p) (merged_row_no_imdb old p) (movies s),
                    executed := Suc (executed s)\<rparr>)))"

text \<open>
  The write of one movie row in \<^verbatim>\<open>main\<close>:
  \<^verbatim>\<open>
  try:
      conn.execute(upsert_sql, params)
  except IntegrityError as e:
      msg = str(e).lower()
      if "imdb_id" in msg or "unique constraint failed: movies.imdb_id" in msg:
          params_no_imdb = params.copy(); params_no_imdb["imdb_id"] = None
          conn.execute(fallback_sql, params_no_imdb)
      else:
          raise
  \<close>
\<close>

definition upsert_movie :: "store \<Rightarrow> params \<Rightarrow> exn + store" where
  "upsert_movie s p =
     (case exec_upsert s p of
        Inr s' \<Rightarrow> Inr s'
      | Inl (IntegrityError msg) \<Rightarrow>
          if contains (lower msg) ''imdb_id''
             \<or> contains (lower msg) ''unique constraint failed: movies.imdb_id''
          then exec_fallback s (p\<lparr>p_imdb_id := JNull\<rparr>)
          else Inl (IntegrityError msg)
      | Inl e \<Rightarrow> Inl e)"

section \<open>Upsert Engine, update-only variant (\<^verbatim>\<open>enrich_missing.py\<close>)\<close>

text \<open>One entry of \<^verbatim>\<open>fields\<close> with its parameter.\<close>

datatype field =
    F_imdb_id json
  | F_director json
  | F_plot json
  | F_box_office json
  | F_released string
  | F_runtime_minutes int

text \<open>
  The \<^verbatim>\<open>fields\<close> list \<^verbatim>\<open>update_movie\<close> builds: a column is set when the record's value is
  truthy, the runtime when it is not \<^verbatim>\<open>None\<close>.
\<close>

definition update_fields :: "omdb \<Rightarrow> field list" where
  "update_fields data =
     (if truthy (imdb_id data) then [F_imdb_id (imdb_id data)] else [])
     @ (if truthy (director data) then [F_director (director data)] else [])
     @ (if truthy (plot data) then [F_plot (plot data)] else [])
     @ (if truthy (box_office data) then [F_box_office (box_office data)] else [])
     @ (case released data of None \<Rightarrow> [] | Some d \<Rightarrow> if d \<noteq> [] then [F_released d] else [])
     @ (case runtime_minutes data of None \<Rightarrow> [] | Some n \<Rightarrow> [F_runtime_minutes n])"

fun set_field :: "field \<Rightarrow> movie_row \<Rightarrow> movie_row" where
  "set_field (F_imdb_id v) m = m\<lparr>m_imdb_id := v\<rparr>"
| "set_field (F_director v) m = m\<lparr>m_director := v\<rparr>"
| "set_field (F_plot v) m = m\<lparr>m_plot := v\<rparr>"
| "set_field (F_box_office v) m = m\<lparr>m_box_office := v\<rparr>"
| "set_field (F_released d) m = m\<lparr>m_released := Some d\<rparr>"
| "set_field (F_runtime_minutes n) m = m\<lparr>m_runtime_minutes := Some n\<rparr>"

fun field_bindable :: "field \<Rightarrow> bool" where
  "field_bindable (F_imdb_id v) = bindable v"
| "field_bindable (F_director v) = bindable v"
| "field_bindable (F_plot v) = bindable v"
| "field_bindable (F_box_office v) = bindable v"
| "field_bindable _ = True"

fun field_collides :: "movie_row list \<Rightarrow> int \<Rightarrow> field \<Rightarrow> bool" where
  "field_collides rows i (F_imdb_id v) = imdb_taken rows i v"
| "field_collides rows i _ = False"

text \<open>\<^verbatim>\<open>UPDATE movies SET <fields> WHERE id = :id\<close>\<close>

definition exec_update :: "store \<Rightarrow> int \<Rightarrow> field list \<Rightarrow> exn + store" where
  "exec_update s i fs =
     (if \<not> list_all field_bindable fs then Inl BindError
      else if list_ex (\<lambda>m. m_id m = i) (movies s) \<and> list_ex (field_collides (movies s) i) fs
      then Inl (IntegrityError unique_msg)
      else Inr (s\<lparr>movies := map (\<lambda>m. if m_id m = i then fold set_field fs m else m) (movies s),
                  executed := Suc (executed s)\<rparr>))"

text \<open>\<^verbatim>\<open>update_movie(conn, movie_id, data)\<close>: \<^verbatim>\<open>False\<close> without touching the store when
  there is nothing to set.\<close>

definition update_movie :: "store \<Rightarrow> int \<Rightarrow> omdb \<Rightarrow> exn + (bool \<times> store)" where
  "update_movie s movie_id data =
     (if update_fields data = [] then Inr (False, s)
      else
        (case exec_update s movie_id (update_fields data) of
           Inl e \<Rightarrow> Inl e
         | Inr s' \<Rightarrow> Inr (True, s')))"

section \<open>Batch Orchestrator, full-load mode (\<^verbatim>\<open>main\<close> of \<^verbatim>\<open>etl.py\<close>)\<close>

text \<open>
  A row of the movie file after \<^verbatim>\<open>parse_title_and_year\<close>: identifier, title and year.
  The genre tables play no part in what follows and are left out.
\<close>

record movie_input =
  movieId :: int
  title :: string
  year :: "int option"

text \<open>\<^verbatim>\<open>omdb.get(...) if omdb else None\<close> for each column.\<close>

definition params_of :: "movie_input \<Rightarrow> omdb option \<Rightarrow> params" where
  "params_of row rec =
     \<lparr>p_id = movieId row, p_title = title row, p_year = year row,
      p_imdb_id = (case rec of None \<Rightarrow> JNull | Some d \<Rightarrow> imdb_id d),
      p_director = (case rec of None \<Rightarrow> JNull | Some d \<Rightarrow> director d),
      p_plot = (case rec of None \<Rightarrow> JNull | Some d \<Rightarrow> plot d),
      p_box_office = (case rec of None \<Rightarrow> JNull | Some d \<Rightarrow> box_office d),
      p_released = (case rec of None \<Rightarrow> None | Some d \<Rightarrow> released d),
      p_runtime = (case rec of None \<Rightarrow> None | Some d \<Rightarrow> runtime_minutes d)\<rparr>"

text \<open>\<^verbatim>\<open>clean_omdb_response(omdb_raw) if omdb_raw else None\<close>\<close>

definition clean_if_any :: "json \<Rightarrow> exn + omdb option" where
  "clean_if_any omdb_raw = (if truthy omdb_raw then clean_omdb_response omdb_raw else Inr None)"

text \<open>The body of the loop over the movie rows: look up, normalize, write.\<close>

definition etl_movie :: "string option \<Rightarrow> net \<Rightarrow> bool \<Rightarrow> movie_input \<Rightarrow> run \<Rightarrow> exn + run" where
  "etl_movie api_key net fast row st =
     (case etl_query_omdb api_key net fast (title row) (year row) st of
        Inl e \<Rightarrow> Inl e
      | Inr (omdb_raw, st1) \<Rightarrow>
          (case clean_if_any omdb_raw of
             Inl e \<Rightarrow> Inl e
           | Inr rec \<Rightarrow>
               (case upsert_movie (db st1) (params_of row rec) of
                  Inl e \<Rightarrow> Inl e
                | Inr s' \<Rightarrow> Inr (st1\<lparr>db := s'\<rparr>))))"

fun etl_movies :: "string option \<Rightarrow> net \<Rightarrow> bool \<Rightarrow> movie_input list \<Rightarrow> run \<Rightarrow> exn + run" where
  "etl_movies api_key net fast [] st = Inr st"
| "etl_movies api_key net fast (row # rows) st =
     (case etl_movie api_key net fast row st of
        Inl e \<Rightarrow> Inl e
      | Inr st' \<Rightarrow> etl_movies api_key net fast rows st')"

text \<open>\<^verbatim>\<open>if limit: movies_df = movies_df.head(limit)\<close>; a negative count drops rows from the
  end.\<close>

definition head :: "int \<Rightarrow> 'a list \<Rightarrow> 'a list" where
  "head n xs = (if 0 \<le> n then take (nat n) xs else take (length xs - nat (- n)) xs)"

definition apply_limit :: "int option \<Rightarrow> 'a list \<Rightarrow> 'a list" where
  "apply_limit limit xs =
     (case limit of None \<Rightarrow> xs | Some n \<Rightarrow> if n = 0 then xs else head n xs)"

text \<open>
  The ratings phase.
  \<^verbatim>\<open>
  existing_ids = {row[0] for row in conn.execute("SELECT id FROM movies")}
  processed_ids = set(movies_df["movieId"].astype(int).tolist())
  valid_movie_ids = existing_ids.union(processed_ids)
  ratings_df_filtered = ratings_df[ratings_df["movieId"].isin(valid_movie_ids)]
  dropped = original_ratings_count - filtered_count
  \<close>
\<close>

definition valid_movie_ids :: "store \<Rightarrow> movie_input list \<Rightarrow> int set" where
  "valid_movie_ids s movies_df = set (map m_id (movies s)) \<union> set (map movieId movies_df)"

definition ratings_df_filtered :: "store \<Rightarrow> movie_input list \<Rightarrow> rating_row list \<Rightarrow> rating_row list" where
  "ratings_df_filtered s movies_df ratings_df =
     filter (\<lambda>r. r_movie_id r \<in> valid_movie_ids s movies_df) ratings_df"

definition dropped :: "store \<Rightarrow> movie_input list \<Rightarrow> rating_row list \<Rightarrow> nat" where
  "dropped s movies_df ratings_df =
     length ratings_df - length (ratings_df_filtered s movies_df ratings_df)"

text \<open>The line printed when \<^verbatim>\<open>dropped > 0\<close>, as the number it reports.\<close>

definition dropped_report :: "store \<Rightarrow> movie_input list \<Rightarrow> rating_row list \<Rightarrow> nat option" where
  "dropped_report s movies_df ratings_df =
     (if dropped s movies_df ratings_df > 0 then Some (dropped s movies_df ratings_df) else None)"

text \<open>
  \<^verbatim>\<open>INSERT OR IGNORE INTO ratings\<close>. The key that makes a rating a duplicate is part of the
  schema, which is not in the sources: \<open>dup\<close> is that test, a parameter.
\<close>

definition insert_rating :: "(rating_row \<Rightarrow> rating_row \<Rightarrow> bool) \<Rightarrow> rating_row \<Rightarrow> store \<Rightarrow> store" where
  "insert_rating dup r s =
     (if list_ex (dup r) (ratings s) then s\<lparr>executed := Suc (executed s)\<rparr>
      else s\<lparr>ratings := ratings s @ [r], executed := Suc (executed s)\<rparr>)"

text \<open>What the ratings phase leaves: the store, the reported drop count and \<^verbatim>\<open>inserted\<close>.\<close>

definition load_ratings :: "(rating_row \<Rightarrow> rating_row \<Rightarrow> bool) \<Rightarrow> movie_input list \<Rightarrow> rating_row list \<Rightarrow> store \<Rightarrow> store \<times> nat option \<times> nat" where
  "load_ratings dup movies_df ratings_df s =
     (fold (insert_rating dup) (ratings_df_filtered s movies_df ratings_df) s,
      dropped_report s movies_df ratings_df,
      length (ratings_df_filtered s movies_df ratings_df))"

text \<open>\<^verbatim>\<open>main(limit, fast)\<close>: the metadata phase, one \<^verbatim>\<open>save_cache\<close>, the ratings phase.\<close>

definition etl_main :: "string option \<Rightarrow> net \<Rightarrow> (rating_row \<Rightarrow> rating_row \<Rightarrow> bool) \<Rightarrow> int option \<Rightarrow> bool \<Rightarrow> movie_input list \<Rightarrow> rating_row list \<Rightarrow> run \<Rightarrow> exn + (run \<times> nat option \<times> nat)" where
  "etl_main api_key net dup limit fast movies_csv ratings_df st =
     (let movies_df = apply_limit limit movies_csv
      in case etl_movies api_key net fast movies_df (st\<lparr>cache := load_cache (cache_file st)\<rparr>) of
           Inl e \<Rightarrow> Inl e
         | Inr st1 \<Rightarrow>
             (let st2 = save_cache st1;
                  (s', report, inserted) = load_ratings dup movies_df ratings_df (db st2)
              in Inr (st2\<lparr>db := s'\<rparr>, report, inserted)))"

section \<open>Batch Orchestrator, enrichment-only mode (\<^verbatim>\<open>enrich_missing.py\<close>)\<close>

text \<open>\<^verbatim>\<open>COUNT(r.rating)\<close> of the rows joined to movie \<open>i\<close>.\<close>

definition rating_count :: "store \<Rightarrow> int \<Rightarrow> nat" where
  "rating_count s i = length (filter (\<lambda>r. r_movie_id r = i) (ratings s))"

text \<open>\<^verbatim>\<open>FROM movies m JOIN ratings r ON r.movie_id = m.id
  WHERE (m.director IS NULL OR m.imdb_id IS NULL) GROUP BY m.id\<close>: one group for each movie
  that the join keeps.\<close>

definition candidate_rows :: "store \<Rightarrow> movie_row list" where
  "candidate_rows s =
     filter (\<lambda>m. (m_director m = JNull \<or> m_imdb_id m = JNull) \<and> 0 < rating_count s (m_id m))
       (movies s)"

text \<open>\<^verbatim>\<open>ORDER BY cnt DESC\<close>; rows with the same count stay in table order.\<close>

definition order_by_cnt_desc :: "store \<Rightarrow> movie_row list \<Rightarrow> movie_row list" where
  "order_by_cnt_desc s rows = sort_key (\<lambda>m. - int (rating_count s (m_id m))) rows"

text \<open>\<^verbatim>\<open>LIMIT :batch\<close>; a negative bound is no bound.\<close>

definition sql_limit :: "int \<Rightarrow> 'a list \<Rightarrow> 'a list" where
  "sql_limit n xs = (if n < 0 then xs else take (nat n) xs)"

definition fetch_candidates :: "store \<Rightarrow> int \<Rightarrow> (int \<times> string \<times> int option) list" where
  "fetch_candidates s batch =
     map (\<lambda>m. (m_id m, m_title m, m_year m))
       (sql_limit batch (order_by_cnt_desc s (candidate_rows s)))"

text \<open>How the loop counts a record.\<close>

datatype outcome = Enriched | Skipped | Uncounted

text \<open>
  The write of one record in \<^verbatim>\<open>main\<close>:
  \<^verbatim>\<open>
  try:
      updated = update_movie(conn, movie_id, omdb)
      if updated: enriched += 1
      else: skipped += 1
  except sqlite3.IntegrityError as e:
      if omdb.get("director") or omdb.get("plot") or omdb.get("box_office")
         or omdb.get("released") or omdb.get("runtime_minutes") is not None:
          data_no_imdb = omdb.copy(); data_no_imdb["imdb_id"] = None
          update_movie(conn, movie_id, data_no_imdb)
          enriched += 1
  \<close>
\<close>

definition other_fields_present :: "omdb \<Rightarrow> bool" where
  "other_fields_present data =
     (truthy (director data) \<or> truthy (plot data) \<or> truthy (box_office data)
      \<or> (case released data of None \<Rightarrow> False | Some d \<Rightarrow> d \<noteq> [])
      \<or> runtime_minutes data \<noteq> None)"

definition enrich_write :: "store \<Rightarrow> int \<Rightarrow> omdb \<Rightarrow> exn + (store \<times> outcome)" where
  "enrich_write s movie_id data =
     (case update_movie s movie_id data of
        Inr (updated, s') \<Rightarrow> Inr (s', if updated then Enriched else Skipped)
      | Inl (IntegrityError msg) \<Rightarrow>
          if other_fields_present data then
            (case update_movie s movie_id (data\<lparr>imdb_id := JNull\<rparr>) of
               Inl e \<Rightarrow> Inl e
             | Inr (updated, s') \<Rightarrow> Inr (s', Enriched))
          else Inr (s, Uncounted)
      | Inl e \<Rightarrow> Inl e)"

text \<open>The loop variables: the run, \<^verbatim>\<open>enriched\<close> and \<^verbatim>\<open>skipped\<close>.\<close>

record progress =
  state :: run
  enriched :: nat
  skipped :: nat

definition tally :: "outcome \<Rightarrow> progress \<Rightarrow> progress" where
  "tally out pr =
     (case out of
        Enriched \<Rightarrow> pr\<lparr>enriched := Suc (enriched pr)\<rparr>
      | Skipped \<Rightarrow> pr\<lparr>skipped := Suc (skipped pr)\<rparr>
      | Uncounted \<Rightarrow> pr)"

text \<open>
  The body of the loop after the rate-limit test. A record without usable OMDb data is
  counted as skipped and the loop \<^verbatim>\<open>continue\<close>s, past the \<^verbatim>\<open>save_cache\<close> at the end of
  the body.
\<close>

definition enrich_one :: "string option \<Rightarrow> net \<Rightarrow> bool \<Rightarrow> int \<times> string \<times> int option \<Rightarrow> progress \<Rightarrow> exn + progress" where
  "enrich_one api_key net fast cand pr =
     (case enrich_query_omdb api_key net fast (fst (snd cand)) (snd (snd cand)) (state pr) of
        Inl e \<Rightarrow> Inl e
      | Inr (omdb_raw, st1) \<Rightarrow>
          (case clean_if_any omdb_raw of
             Inl e \<Rightarrow> Inl e
           | Inr None \<Rightarrow> Inr (pr\<lparr>state := st1, skipped := Suc (skipped pr)\<rparr>)
           | Inr (Some data) \<Rightarrow>
               (case enrich_write (db st1) (fst cand) data of
                  Inl e \<Rightarrow> Inl e
                | Inr (s', out) \<Rightarrow> Inr (tally out (pr\<lparr>state := save_cache (st1\<lparr>db := s'\<rparr>)\<rparr>)))))"

text \<open>The loop: \<^verbatim>\<open>if OMDB_RATE_LIMITED and not fast: break\<close> comes first in the body.\<close>

fun enrich_loop :: "string option \<Rightarrow> net \<Rightarrow> bool \<Rightarrow> (int \<times> string \<times> int option) list \<Rightarrow> progress \<Rightarrow> exn + progress" where
  "enrich_loop api_key net fast [] pr = Inr pr"
| "enrich_loop api_key net fast (cand # cands) pr =
     (if OMDB_RATE_LIMITED (state pr) \<and> \<not> fast then Inr pr
      else
        (case enrich_one api_key net fast cand pr of
           Inl e \<Rightarrow> Inl e
         | Inr pr' \<Rightarrow> enrich_loop api_key net fast cands pr'))"

text \<open>\<^verbatim>\<open>main(batch, fast)\<close>: without candidates it returns at once; otherwise the loop and a
  last \<^verbatim>\<open>save_cache\<close>.\<close>

definition enrich_main :: "string option \<Rightarrow> net \<Rightarrow> int \<Rightarrow> bool \<Rightarrow> run \<Rightarrow> exn + progress" where
  "enrich_main api_key net batch fast st =
     (let st0 = st\<lparr>cache := load_cache (cache_file st)\<rparr>;
          candidates = fetch_candidates (db st0) batch
      in if candidates = [] then Inr \<lparr>state = st0, enriched = 0, skipped = 0\<rparr>
         else
           (case enrich_loop api_key net fast candidates \<lparr>state = st0, enriched = 0, skipped = 0\<rparr> of
              Inl e \<Rightarrow> Inl e
            | Inr pr \<Rightarrow> Inr (pr\<lparr>state := save_cache (state pr)\<rparr>)))"

section \<open>Example runs\<close>

text \<open>A run that starts with nothing: no cache, no file, an empty store.\<close>

definition empty_store :: store where
  "empty_store = \<lparr>movies = [], ratings = [], executed = 0\<rparr>"

definition fresh_run :: run where
  "fresh_run =
     \<lparr>OMDB_RATE_LIMITED = False, cache = [], net_calls = [], db = empty_store,
      cache_file = None\<rparr>"

text \<open>A remote API that knows one film, and one that has run out of quota.\<close>

definition toy_story :: json where
  "toy_story = JObj [(''Response'', JStr ''True''), (''imdbID'', JStr ''tt0114709''),
                     (''Director'', JStr ''John Lasseter'')]"

definition found_net :: net where
  "found_net n req = Json toy_story"

definition limit_reached :: json where
  "limit_reached =
     JObj [(''Response'', JStr ''False''), (''Error'', JStr ''Request limit reached!'')]"

definition limit_net :: net where
  "limit_net n req = Json limit_reached"

text \<open>The run after one lookup of Toy Story (1995) that the API answered.\<close>

definition toy_story_cached :: run where
  "toy_story_cached =
     fresh_run\<lparr>cache := [(''Toy Story||1995'', toy_story)],
               net_calls := [TitleLookup ''k'' ''Toy Story'' (Some 1995)]\<rparr>"

text \<open>The run after one lookup of Toy Story (1995) that hit the request limit.\<close>

definition toy_story_limited :: run where
  "toy_story_limited =
     fresh_run\<lparr>OMDB_RATE_LIMITED := True,
               cache := [(''Toy Story||1995'', limit_reached)],
               net_calls := [TitleLookup ''k'' ''Toy Story'' (Some 1995)]\<rparr>"

text \<open>A store with two films, the first already enriched, and two ratings of the second.\<close>

definition two_films :: store where
  "two_films =
     \<lparr>movies =
        [\<lparr>m_id = 1, m_title = ''Toy Story'', m_year = Some 1995,
          m_imdb_id = JStr ''tt0114709'', m_director = JStr ''John Lasseter'', m_plot = JNull,
          m_box_office = JNull, m_released = None, m_runtime_minutes = None\<rparr>,
         \<lparr>m_id = 2, m_title = ''Toy Story 3D'', m_year = None,
          m_imdb_id = JNull, m_director = JNull, m_plot = JNull,
          m_box_office = JNull, m_released = None, m_runtime_minutes = None\<rparr>],
      ratings =
        [\<lparr>r_user_id = 7, r_movie_id = 2, r_rating = 4, r_timestamp = None\<rparr>,
         \<lparr>r_user_id = 8, r_movie_id = 2, r_rating = 5, r_timestamp = None\<rparr>],
      executed = 0\<rparr>"

text \<open>The second film after a write that kept everything but the external ID.\<close>

definition two_films_retried :: store where
  "two_films_retried =
     two_films\<lparr>movies :=
        [\<lparr>m_id = 1, m_title = ''Toy Story'', m_year = Some 1995,
          m_imdb_id = JStr ''tt0114709'', m_director = JStr ''John Lasseter'', m_plot = JNull,
          m_box_office = JNull, m_released = None, m_runtime_minutes = None\<rparr>,
         \<lparr>m_id = 2, m_title = ''Toy Story 3D'', m_year = None,
          m_imdb_id = JNull, m_director = JStr ''John Lasseter'', m_plot = JNull,
          m_box_office = JNull, m_released = None, m_runtime_minutes = None\<rparr>],
      executed := 1\<rparr>"

text \<open>The record the normalizer makes of the Toy Story document, and the second film's
  row of the movie file; its lookup is answered with the first film's document.\<close>

definition toy_story_record :: omdb where
  "toy_story_record =
     \<lparr>imdb_id = JStr ''tt0114709'', director = JStr ''John Lasseter'', plot = JNull,
      box_office = JNull, released = None, runtime_minutes = None\<rparr>"

definition remake_row :: movie_input where
  "remake_row = \<lparr>movieId = 2, title = ''Toy Story 3D'', year = None\<rparr>"

definition remake_cached :: run where
  "remake_cached = fresh_run\<lparr>cache := [(''Toy Story 3D||None'', toy_story)], db := two_films\<rparr>"

text \<open>A successful response without any metadata, the record the normalizer makes of it,
  and a run that has it cached for the second film.\<close>

definition bare_document :: json where
  "bare_document = JObj [(''Response'', JStr ''True'')]"

definition absent_record :: omdb where
  "absent_record =
     \<lparr>imdb_id = JNull, director = JNull, plot = JNull, box_office = JNull, released = None,
      runtime_minutes = None\<rparr>"

definition bare_cached :: run where
  "bare_cached = fresh_run\<lparr>cache := [(''Toy Story 3D||None'', bare_document)], db := two_films\<rparr>"

text \<open>A run on the two films with an empty cache and no cache file, and the same run after
  the second film was looked up in fast mode.\<close>

definition rated_run :: run where
  "rated_run = fresh_run\<lparr>db := two_films\<rparr>"

definition rated_run_skipped :: run where
  "rated_run_skipped =
     fresh_run\<lparr>cache := [(''Toy Story 3D||None'', skipped_response)], db := two_films\<rparr>"

text \<open>A ratings file with one rating of a film the store does not know, and the test for a
  duplicate rating: the same user and film.\<close>

definition same_user_and_movie :: "rating_row \<Rightarrow> rating_row \<Rightarrow> bool" where
  "same_user_and_movie a b = (r_user_id a = r_user_id b \<and> r_movie_id a = r_movie_id b)"

definition ratings_file :: "rating_row list" where
  "ratings_file =
     [\<lparr>r_user_id = 7, r_movie_id = 1, r_rating = 3, r_timestamp = Some 964982703\<rparr>,
      \<lparr>r_user_id = 7, r_movie_id = 50, r_rating = 5, r_timestamp = Some 964982931\<rparr>]"

text \<open>The two films after the ratings file was loaded.\<close>

definition two_films_rated :: store where
  "two_films_rated =
     two_films\<lparr>ratings :=
        [\<lparr>r_user_id = 7, r_movie_id = 2, r_rating = 4, r_timestamp = None\<rparr>,
         \<lparr>r_user_id = 8, r_movie_id = 2, r_rating = 5, r_timestamp = None\<rparr>,
         \<lparr>r_user_id = 7, r_movie_id = 1, r_rating = 3, r_timestamp = Some 964982703\<rparr>],
      executed := 1\<rparr>"


text \<open>A movie file of two rows, of which a row cap of one keeps the first, and the run
  that a capped full load in fast mode leaves of the two films.\<close>

definition movies_file :: "movie_input list" where
  "movies_file = [remake_row, \<lparr>movieId = 50, title = ''Heat'', year = Some 1995\<rparr>]"

definition full_load_result :: run where
  "full_load_result =
     \<lparr>OMDB_RATE_LIMITED = False,
      cache = [(''Toy Story 3D||None'', skipped_response)],
      net_calls = [],
      db = two_films\<lparr>ratings :=
             [\<lparr>r_user_id = 7, r_movie_id = 2, r_rating = 4, r_timestamp = None\<rparr>,
              \<lparr>r_user_id = 8, r_movie_id = 2, r_rating = 5, r_timestamp = None\<rparr>,
              \<lparr>r_user_id = 7, r_movie_id = 1, r_rating = 3, r_timestamp = Some 964982703\<rparr>],
           executed := 2\<rparr>,
      cache_file = Some [(''Toy Story 3D||None'', skipped_response)]\<rparr>"

section \<open>Properties of the normalizer\<close>


lemma not_na_never_marker: "not_na x \<noteq> JStr ''N/A''"
  by (simp add: not_na_def)


lemma parse_runtime_null: "parse_runtime JNull = Inr None"
  by (simp add: parse_runtime_def)


text \<open>
  Claim C3. The normalizer is to map every scalar field that equals the marker \<^verbatim>\<open>"N/A"\<close> to
  absent, the external ID included. On a successful response whose \<^verbatim>\<open>imdbID\<close> and
  \<^verbatim>\<open>Director\<close> are both the marker, the director becomes absent and the external ID
  is returned as the literal text \<^verbatim>\<open>"N/A"\<close>: the code has no sentinel check on that field.
\<close>

theorem clean_omdb_response_keeps_marker_in_imdb_id:
  "clean_omdb_response
     (JObj [(''Response'', JStr ''True''), (''imdbID'', JStr ''N/A''),
            (''Director'', JStr ''N/A'')])
   = Inr (Some \<lparr>imdb_id = JStr ''N/A'', director = JNull, plot = JNull, box_office = JNull,
                released = None, runtime_minutes = None\<rparr>)"
  by (simp add: clean_omdb_response_def dict_get_def parse_runtime_def not_na_def
        parse_released_def)




text \<open>The documents on which the normalizer returns, exactly.\<close>

lemma clean_omdb_response_returns_iff:
  "(\<exists>res. clean_omdb_response r = Inr res) \<longleftrightarrow>
     \<not> truthy r
     \<or> (\<exists>kvs. r = JObj kvs
            \<and> (dict_get kvs ''Response'' = JStr ''False''
                \<or> \<not> truthy (dict_get kvs ''Runtime'')
                \<or> (\<exists>s. dict_get kvs ''Runtime'' = JStr s)
                \<or> (\<exists>xs. dict_get kvs ''Runtime'' = JList xs)
                \<or> (\<exists>ob. dict_get kvs ''Runtime'' = JObj ob)))"
proof (cases r)
  case (JObj kvs)
  show ?thesis
    by (cases "dict_get kvs ''Runtime''")
       (auto simp: JObj clean_omdb_response_def parse_runtime_def)
qed (simp_all add: clean_omdb_response_def)



section \<open>Properties of the client\<close>

lemma cache_put_lookup: "map_of (cache (cache_put key v st)) key = Some v"
  by (simp add: cache_put_def update_conv')

lemma cache_put_frame:
  "net_calls (cache_put key v st) = net_calls st"
  "OMDB_RATE_LIMITED (cache_put key v st) = OMDB_RATE_LIMITED st"
  "db (cache_put key v st) = db st"
  "cache_file (cache_put key v st) = cache_file st"
  by (simp_all add: cache_put_def)

text \<open>A cached key is answered from the cache, whatever the mode, the flag and the key.\<close>

lemma etl_query_cached:
  "map_of (cache st) (cache_key t y) = Some v \<Longrightarrow>
   etl_query_omdb api net fast t y st = Inr (v, st)"
  by (simp add: etl_query_omdb_def)

lemma enrich_query_cached:
  "map_of (cache st) (cache_key t y) = Some v \<Longrightarrow>
   enrich_query_omdb api net fast t y st = Inr (v, st)"
  by (simp add: enrich_query_omdb_def)

text \<open>Every return path stores the value it returns under the call's key.\<close>

lemma etl_search_writes:
  "etl_search k net t y data st = Inr (v, st') \<Longrightarrow> map_of (cache st') (cache_key t y) = Some v"
  by (auto simp: etl_search_def Let_def cache_put_lookup
           split: prod.splits sum.splits option.splits if_splits)

lemma etl_lookup_writes:
  "etl_lookup k net t y st = Inr (v, st') \<Longrightarrow> map_of (cache st') (cache_key t y) = Some v"
  by (auto simp: etl_lookup_def Let_def cache_put_lookup split: prod.splits sum.splits if_splits
           dest: etl_search_writes)

lemma etl_query_writes:
  "etl_query_omdb api net fast t y st = Inr (v, st') \<Longrightarrow>
   map_of (cache st') (cache_key t y) = Some v"
  by (auto simp: etl_query_omdb_def Let_def cache_put_lookup split: option.splits if_splits
           dest: etl_lookup_writes)

lemma enrich_lookup_writes:
  "enrich_lookup k net t y st = Inr (v, st') \<Longrightarrow> map_of (cache st') (cache_key t y) = Some v"
  by (auto simp: enrich_lookup_def Let_def cache_put_lookup
           split: prod.splits sum.splits if_splits)

lemma enrich_query_writes:
  "enrich_query_omdb api net fast t y st = Inr (v, st') \<Longrightarrow>
   map_of (cache st') (cache_key t y) = Some v"
  by (auto simp: enrich_query_omdb_def Let_def cache_put_lookup split: option.splits if_splits
           dest: enrich_lookup_writes)

text \<open>Evaluation of the example lookups.\<close>

lemma toy_story_key: "cache_key ''Toy Story'' (Some 1995) = ''Toy Story||1995''"
  by code_simp

lemma lower_limit_reached: "lower ''Request limit reached!'' = ''request limit reached!''"
  by code_simp

lemma etl_finds_toy_story:
  "etl_query_omdb (Some ''k'') found_net False ''Toy Story'' (Some 1995) fresh_run
   = Inr (toy_story, toy_story_cached)"
  by (simp add: etl_query_omdb_def etl_lookup_def etl_call_def toy_story_key fresh_run_def
        found_net_def toy_story_def error_text_def dict_get_def year_param_def cache_put_def
        toy_story_cached_def)

lemma enrich_finds_toy_story:
  "enrich_query_omdb (Some ''k'') found_net False ''Toy Story'' (Some 1995) fresh_run
   = Inr (toy_story, toy_story_cached)"
  by (simp add: enrich_query_omdb_def enrich_lookup_def enrich_call_def toy_story_key
        fresh_run_def found_net_def toy_story_def error_text_def dict_get_def year_param_def
        cache_put_def toy_story_cached_def)

text \<open>
  Claim C4. When a call of the client returns, the value it returns is stored in the cache
  under the call's key; a second call with the same title and year on that cache returns
  the same value and leaves the run as it is: no request is sent, whatever the mode, the
  API key and the remote API are by then. This holds for both pipelines.
\<close>

theorem query_omdb_second_call_is_cached:
  "(etl_query_omdb api net fast t y st = Inr (v, st') \<longrightarrow>
      map_of (cache st') (cache_key t y) = Some v
      \<and> etl_query_omdb api2 net2 fast2 t y st' = Inr (v, st'))
   \<and> (enrich_query_omdb api net fast t y st = Inr (v, st') \<longrightarrow>
      map_of (cache st') (cache_key t y) = Some v
      \<and> enrich_query_omdb api2 net2 fast2 t y st' = Inr (v, st'))"
proof (intro conjI impI)
  assume a: "etl_query_omdb api net fast t y st = Inr (v, st')"
  show w: "map_of (cache st') (cache_key t y) = Some v"
    by (rule etl_query_writes [OF a])
  show "etl_query_omdb api2 net2 fast2 t y st' = Inr (v, st')"
    by (rule etl_query_cached [OF w])
next
  assume a: "enrich_query_omdb api net fast t y st = Inr (v, st')"
  show w: "map_of (cache st') (cache_key t y) = Some v"
    by (rule enrich_query_writes [OF a])
  show "enrich_query_omdb api2 net2 fast2 t y st' = Inr (v, st')"
    by (rule enrich_query_cached [OF w])
qed

theorem query_omdb_second_call_is_cached_witness:
  "etl_query_omdb (Some ''k'') found_net False ''Toy Story'' (Some 1995) fresh_run
     = Inr (toy_story, toy_story_cached)
   \<and> etl_query_omdb None limit_net True ''Toy Story'' (Some 1995) toy_story_cached
     = Inr (toy_story, toy_story_cached)
   \<and> enrich_query_omdb (Some ''k'') found_net False ''Toy Story'' (Some 1995) fresh_run
     = Inr (toy_story, toy_story_cached)
   \<and> enrich_query_omdb None limit_net True ''Toy Story'' (Some 1995) toy_story_cached
     = Inr (toy_story, toy_story_cached)"
proof -
  note t = query_omdb_second_call_is_cached
    [where api = "Some ''k''" and net = found_net and fast = False and t = "''Toy Story''"
       and y = "Some 1995" and st = fresh_run and v = toy_story and st' = toy_story_cached
       and ?api2.0 = None and ?net2.0 = limit_net and ?fast2.0 = True]
  from t etl_finds_toy_story enrich_finds_toy_story show ?thesis
    by simp
qed

text \<open>While the flag is set, or in fast mode, an uncached key gets the synthetic skipped
  failure, which is stored; without an API key it gets the no-key failure.\<close>

lemma etl_query_skips:
  "map_of (cache st) (cache_key t y) = None \<Longrightarrow> fast \<or> OMDB_RATE_LIMITED st \<Longrightarrow>
   etl_query_omdb api net fast t y st
     = Inr (skipped_response, cache_put (cache_key t y) skipped_response st)"
  by (simp add: etl_query_omdb_def)

lemma enrich_query_skips:
  "map_of (cache st) (cache_key t y) = None \<Longrightarrow> fast \<or> OMDB_RATE_LIMITED st \<Longrightarrow>
   enrich_query_omdb api net fast t y st
     = Inr (skipped_response, cache_put (cache_key t y) skipped_response st)"
  by (simp add: enrich_query_omdb_def)

lemma etl_query_no_key:
  "map_of (cache st) (cache_key t y) = None \<Longrightarrow> \<not> fast \<Longrightarrow> \<not> OMDB_RATE_LIMITED st \<Longrightarrow>
   api = None \<or> api = Some [] \<Longrightarrow>
   etl_query_omdb api net fast t y st
     = Inr (no_key_response, cache_put (cache_key t y) no_key_response st)"
  by (auto simp: etl_query_omdb_def)

lemma enrich_query_no_key:
  "map_of (cache st) (cache_key t y) = None \<Longrightarrow> \<not> fast \<Longrightarrow> \<not> OMDB_RATE_LIMITED st \<Longrightarrow>
   api = None \<or> api = Some [] \<Longrightarrow>
   enrich_query_omdb api net fast t y st
     = Inr (no_key_response, cache_put (cache_key t y) no_key_response st)"
  by (auto simp: enrich_query_omdb_def)

lemma save_load_cache: "load_cache (cache_file (save_cache st)) = cache st"
  by (simp add: load_cache_def save_cache_def)

text \<open>
  Claim C9. For a key that is not cached, a call in fast mode, under the rate-limit flag
  or without an API key sends no request, returns a synthetic failure and stores it
  under the key. The entry survives \<^verbatim>\<open>save_cache\<close> and \<^verbatim>\<open>load_cache\<close>, and any run whose
  cache holds it, whatever its mode, its flag, its API key and the remote API, answers
  the key with that failure and sends no request, because the cache is read first.
\<close>

theorem synthetic_failure_sticks_in_cache:
  assumes "map_of (cache st) (cache_key t y) = None"
    and "fast \<or> OMDB_RATE_LIMITED st \<or> api = None \<or> api = Some []"
  shows "\<exists>v. (v = skipped_response \<or> v = no_key_response)
           \<and> etl_query_omdb api net fast t y st = Inr (v, cache_put (cache_key t y) v st)
           \<and> enrich_query_omdb api net fast t y st = Inr (v, cache_put (cache_key t y) v st)
           \<and> net_calls (cache_put (cache_key t y) v st) = net_calls st
           \<and> map_of (load_cache (cache_file (save_cache (cache_put (cache_key t y) v st))))
                (cache_key t y) = Some v
           \<and> (\<forall>api2 net2 fast2 st2.
                 map_of (cache st2) (cache_key t y) = Some v \<longrightarrow>
                   etl_query_omdb api2 net2 fast2 t y st2 = Inr (v, st2)
                   \<and> enrich_query_omdb api2 net2 fast2 t y st2 = Inr (v, st2))"
proof (cases "fast \<or> OMDB_RATE_LIMITED st")
  case True
  have "etl_query_omdb api net fast t y st
          = Inr (skipped_response, cache_put (cache_key t y) skipped_response st)"
    by (rule etl_query_skips [OF assms(1) True])
  moreover have "enrich_query_omdb api net fast t y st
          = Inr (skipped_response, cache_put (cache_key t y) skipped_response st)"
    by (rule enrich_query_skips [OF assms(1) True])
  ultimately show ?thesis
    by (intro exI [of _ skipped_response])
       (simp add: cache_put_frame save_load_cache cache_put_lookup etl_query_cached
          enrich_query_cached)
next
  case False
  with assms(2) have k: "api = None \<or> api = Some []" by blast
  from False have nf: "\<not> fast" and nl: "\<not> OMDB_RATE_LIMITED st" by simp_all
  have "etl_query_omdb api net fast t y st
          = Inr (no_key_response, cache_put (cache_key t y) no_key_response st)"
    by (rule etl_query_no_key [OF assms(1) nf nl k])
  moreover have "enrich_query_omdb api net fast t y st
          = Inr (no_key_response, cache_put (cache_key t y) no_key_response st)"
    by (rule enrich_query_no_key [OF assms(1) nf nl k])
  ultimately show ?thesis
    by (intro exI [of _ no_key_response])
       (simp add: cache_put_frame save_load_cache cache_put_lookup etl_query_cached
          enrich_query_cached)
qed

theorem synthetic_failure_sticks_in_cache_witness:
  "map_of (cache fresh_run) (cache_key ''Toy Story'' (Some 1995)) = None
   \<and> (True \<or> OMDB_RATE_LIMITED fresh_run \<or> Some ''k'' = None \<or> Some ''k'' = Some [])
   \<and> etl_query_omdb (Some ''k'') found_net True ''Toy Story'' (Some 1995) fresh_run
       = Inr (skipped_response,
              cache_put (cache_key ''Toy Story'' (Some 1995)) skipped_response fresh_run)
   \<and> etl_query_omdb (Some ''k'') found_net False ''Toy Story'' (Some 1995)
         (fresh_run\<lparr>cache := load_cache (cache_file (save_cache
            (cache_put (cache_key ''Toy Story'' (Some 1995)) skipped_response fresh_run)))\<rparr>)
       = Inr (skipped_response,
              fresh_run\<lparr>cache := load_cache (cache_file (save_cache
                (cache_put (cache_key ''Toy Story'' (Some 1995)) skipped_response fresh_run)))\<rparr>)"
proof -
  let ?key = "cache_key ''Toy Story'' (Some 1995)"
  have h1: "map_of (cache fresh_run) ?key = None"
    by (simp add: fresh_run_def)
  have h2: "True \<or> OMDB_RATE_LIMITED fresh_run \<or> Some ''k'' = None \<or> Some ''k'' = Some []"
    by simp
  from synthetic_failure_sticks_in_cache [OF h1 h2, of found_net] obtain v where
    e: "etl_query_omdb (Some ''k'') found_net True ''Toy Story'' (Some 1995) fresh_run
          = Inr (v, cache_put ?key v fresh_run)"
    and l: "map_of (load_cache (cache_file (save_cache (cache_put ?key v fresh_run)))) ?key
          = Some v"
    and a: "\<forall>api2 net2 fast2 st2.
              map_of (cache st2) ?key = Some v \<longrightarrow>
                etl_query_omdb api2 net2 fast2 ''Toy Story'' (Some 1995) st2 = Inr (v, st2)
                \<and> enrich_query_omdb api2 net2 fast2 ''Toy Story'' (Some 1995) st2 = Inr (v, st2)"
    by (elim exE conjE) (rule that; assumption)
  have s: "etl_query_omdb (Some ''k'') found_net True ''Toy Story'' (Some 1995) fresh_run
          = Inr (skipped_response, cache_put ?key skipped_response fresh_run)"
    by (rule etl_query_skips [OF h1]) simp
  have "Inr (v, cache_put ?key v fresh_run)
          = (Inr (skipped_response, cache_put ?key skipped_response fresh_run) :: exn + json \<times> run)"
    by (rule trans [OF e [symmetric] s])
  then have v: "v = skipped_response"
    by (simp only: sum.inject prod.inject)
  let ?later = "fresh_run\<lparr>cache := load_cache (cache_file (save_cache
                  (cache_put ?key skipped_response fresh_run)))\<rparr>"
  from l v have m: "map_of (cache ?later) ?key = Some v" by simp
  have "etl_query_omdb (Some ''k'') found_net False ''Toy Story'' (Some 1995) ?later
                 = Inr (v, ?later)"
    by (rule a [rule_format, of ?later "Some ''k''" found_net False, OF m, THEN conjunct1])
  then have r: "etl_query_omdb (Some ''k'') found_net False ''Toy Story'' (Some 1995) ?later
                 = Inr (skipped_response, ?later)"
    by (simp only: v)
  from h1 h2 s r show ?thesis by (intro conjI)
qed

text \<open>Under the flag a sequence of calls is answered from the cache as it was when the
  sequence began, with the skipped failure for every key that was not in it.\<close>

lemma answer_after_skip:
  "map_of c key = None \<Longrightarrow>
   (case map_of (AList.update key skipped_response c) k of
      Some v \<Rightarrow> v | None \<Rightarrow> skipped_response)
   = (case map_of c k of Some v \<Rightarrow> v | None \<Rightarrow> skipped_response)"
  by (simp add: update_conv')

lemma etl_query_all_flagged:
  "OMDB_RATE_LIMITED st \<Longrightarrow>
   \<exists>st'. etl_query_all api net fast qs st
           = Inr (map (\<lambda>q. case map_of (cache st) (cache_key (fst q) (snd q)) of
                              Some v \<Rightarrow> v | None \<Rightarrow> skipped_response) qs, st')
         \<and> net_calls st' = net_calls st \<and> OMDB_RATE_LIMITED st'"
proof (induction qs arbitrary: st)
  case Nil
  then show ?case by simp
next
  case (Cons q qs)
  show ?case
  proof (cases "map_of (cache st) (cache_key (fst q) (snd q))")
    case (Some v)
    from Cons.IH [OF Cons.prems] obtain st' where
      "etl_query_all api net fast qs st
         = Inr (map (\<lambda>q. case map_of (cache st) (cache_key (fst q) (snd q)) of
                            Some v \<Rightarrow> v | None \<Rightarrow> skipped_response) qs, st')"
      "net_calls st' = net_calls st" "OMDB_RATE_LIMITED st'"
      by blast
    with Some show ?thesis
      by (simp add: etl_query_cached)
  next
    case None
    let ?st1 = "cache_put (cache_key (fst q) (snd q)) skipped_response st"
    have fl: "OMDB_RATE_LIMITED ?st1"
      using Cons.prems by (simp add: cache_put_frame)
    from Cons.IH [OF fl] obtain st' where r:
      "etl_query_all api net fast qs ?st1
         = Inr (map (\<lambda>q. case map_of (cache ?st1) (cache_key (fst q) (snd q)) of
                            Some v \<Rightarrow> v | None \<Rightarrow> skipped_response) qs, st')"
      "net_calls st' = net_calls ?st1" "OMDB_RATE_LIMITED st'"
      by blast
    have same: "(\<lambda>q. case map_of (cache ?st1) (cache_key (fst q) (snd q)) of
                            Some v \<Rightarrow> v | None \<Rightarrow> skipped_response)
              = (\<lambda>q. case map_of (cache st) (cache_key (fst q) (snd q)) of
                            Some v \<Rightarrow> v | None \<Rightarrow> skipped_response)"
      using None by (simp add: cache_put_def answer_after_skip)
    from r same None Cons.prems show ?thesis
      by (simp add: etl_query_skips cache_put_frame)
  qed
qed

lemma enrich_query_all_flagged:
  "OMDB_RATE_LIMITED st \<Longrightarrow>
   \<exists>st'. enrich_query_all api net fast qs st
           = Inr (map (\<lambda>q. case map_of (cache st) (cache_key (fst q) (snd q)) of
                              Some v \<Rightarrow> v | None \<Rightarrow> skipped_response) qs, st')
         \<and> net_calls st' = net_calls st \<and> OMDB_RATE_LIMITED st'"
proof (induction qs arbitrary: st)
  case Nil
  then show ?case by simp
next
  case (Cons q qs)
  show ?case
  proof (cases "map_of (cache st) (cache_key (fst q) (snd q))")
    case (Some v)
    from Cons.IH [OF Cons.prems] obtain st' where
      "enrich_query_all api net fast qs st
         = Inr (map (\<lambda>q. case map_of (cache st) (cache_key (fst q) (snd q)) of
                            Some v \<Rightarrow> v | None \<Rightarrow> skipped_response) qs, st')"
      "net_calls st' = net_calls st" "OMDB_RATE_LIMITED st'"
      by blast
    with Some show ?thesis
      by (simp add: enrich_query_cached)
  next
    case None
    let ?st1 = "cache_put (cache_key (fst q) (snd q)) skipped_response st"
    have fl: "OMDB_RATE_LIMITED ?st1"
      using Cons.prems by (simp add: cache_put_frame)
    from Cons.IH [OF fl] obtain st' where r:
      "enrich_query_all api net fast qs ?st1
         = Inr (map (\<lambda>q. case map_of (cache ?st1) (cache_key (fst q) (snd q)) of
                            Some v \<Rightarrow> v | None \<Rightarrow> skipped_response) qs, st')"
      "net_calls st' = net_calls ?st1" "OMDB_RATE_LIMITED st'"
      by blast
    have same: "(\<lambda>q. case map_of (cache ?st1) (cache_key (fst q) (snd q)) of
                            Some v \<Rightarrow> v | None \<Rightarrow> skipped_response)
              = (\<lambda>q. case map_of (cache st) (cache_key (fst q) (snd q)) of
                            Some v \<Rightarrow> v | None \<Rightarrow> skipped_response)"
      using None by (simp add: cache_put_def answer_after_skip)
    from r same None Cons.prems show ?thesis
      by (simp add: enrich_query_skips cache_put_frame)
  qed
qed

text \<open>A lookup whose error text carries a marker sets the flag.\<close>

lemma error_text_dict: "error_text data = Inr err \<Longrightarrow> \<exists>kvs. data = JObj kvs"
  by (cases data) (simp_all add: error_text_def)

lemma etl_lookup_sets_flag:
  assumes "error_text (fst (etl_call net (TitleLookup k t (year_param y)) st)) = Inr err"
    and "py_get (fst (etl_call net (TitleLookup k t (year_param y)) st)) ''Response''
           \<noteq> Inr (JStr ''True'')"
    and "contains err ''limit'' \<or> contains err ''invalid api key''"
  shows "\<exists>v st'. etl_lookup k net t y st = Inr (v, st') \<and> OMDB_RATE_LIMITED st'"
proof -
  let ?c = "etl_call net (TitleLookup k t (year_param y)) st"
  from error_text_dict [OF assms(1)] obtain kvs where d: "fst ?c = JObj kvs" by blast
  from assms(2) d have r: "dict_get kvs ''Response'' \<noteq> JStr ''True''" by simp
  from assms(1) d have e: "error_text (JObj kvs) = Inr err" by simp
  show ?thesis
    using assms(3) r e
    by (simp add: etl_lookup_def Let_def case_prod_beta d limit_failure_def cache_put_frame)
qed

lemma enrich_lookup_sets_flag:
  assumes "error_text (fst (enrich_call net (TitleLookup k t (year_param y)) st)) = Inr err"
    and "contains err ''request limit'' \<or> contains err ''limit reached''
           \<or> contains err ''invalid api key''"
  shows "\<exists>v st'. enrich_lookup k net t y st = Inr (v, st') \<and> OMDB_RATE_LIMITED st'"
proof -
  let ?c = "enrich_call net (TitleLookup k t (year_param y)) st"
  from error_text_dict [OF assms(1)] obtain kvs where d: "fst ?c = JObj kvs" by blast
  from assms(1) d have e: "error_text (JObj kvs) = Inr err" by simp
  show ?thesis
    using assms(2) e
    by (simp add: enrich_lookup_def Let_def case_prod_beta d limit_failure_def cache_put_frame)
qed

lemma jumanji_key: "cache_key ''Jumanji'' (Some 1995) = ''Jumanji||1995''"
  by code_simp

lemma etl_hits_limit:
  "etl_query_omdb (Some ''k'') limit_net False ''Toy Story'' (Some 1995) fresh_run
   = Inr (limit_reached, toy_story_limited)"
  by (simp add: etl_query_omdb_def etl_lookup_def etl_call_def toy_story_key fresh_run_def
        limit_net_def limit_reached_def error_text_def dict_get_def year_param_def
        cache_put_def lower_limit_reached starts_with_def limit_failure_def failure_def
        toy_story_limited_def)

text \<open>
  Claim C2, as stated: once the flag is set, every later call of the run returns the
  synthetic skipped failure. A lookup of Toy Story (1995) hits the request limit, which
  sets the flag and caches the API's own failure document; the next call for the same
  title sends no request but returns that cached document, not the skipped failure.
\<close>

theorem call_under_flag_returns_cached_value:
  "etl_query_omdb (Some ''k'') limit_net False ''Toy Story'' (Some 1995) fresh_run
     = Inr (limit_reached, toy_story_limited)
   \<and> OMDB_RATE_LIMITED toy_story_limited
   \<and> etl_query_omdb (Some ''k'') limit_net False ''Toy Story'' (Some 1995) toy_story_limited
     = Inr (limit_reached, toy_story_limited)
   \<and> limit_reached \<noteq> skipped_response"
proof (intro conjI)
  show "etl_query_omdb (Some ''k'') limit_net False ''Toy Story'' (Some 1995) fresh_run
     = Inr (limit_reached, toy_story_limited)"
    by (rule etl_hits_limit)
  show "OMDB_RATE_LIMITED toy_story_limited"
    by (simp add: toy_story_limited_def)
  show "etl_query_omdb (Some ''k'') limit_net False ''Toy Story'' (Some 1995) toy_story_limited
     = Inr (limit_reached, toy_story_limited)"
    by (rule etl_query_cached) (simp add: toy_story_key toy_story_limited_def)
  show "limit_reached \<noteq> skipped_response"
    by (simp add: limit_reached_def skipped_response_def failure_def)
qed

text \<open>
  Claim C2, amended. While the flag is set, every call of the run sends no request and
  does not raise; it returns the cached value when its key is cached and the synthetic
  skipped failure otherwise, and the flag stays set. The flag is set by a lookup that
  reaches the API and whose lower-cased error text contains a marker: in the full
  pipeline \<^verbatim>\<open>limit\<close> or \<^verbatim>\<open>invalid api key\<close>, on a response that does not report success;
  in the enrichment-only pipeline \<^verbatim>\<open>request limit\<close>, \<^verbatim>\<open>limit reached\<close> or
  \<^verbatim>\<open>invalid api key\<close>.
\<close>

theorem rate_limit_flag_ends_network_access:
  "(OMDB_RATE_LIMITED st \<longrightarrow>
      (\<exists>st'. etl_query_all api net fast qs st
                = Inr (map (\<lambda>q. case map_of (cache st) (cache_key (fst q) (snd q)) of
                                   Some v \<Rightarrow> v | None \<Rightarrow> skipped_response) qs, st')
              \<and> net_calls st' = net_calls st \<and> OMDB_RATE_LIMITED st')
      \<and> (\<exists>st'. enrich_query_all api net fast qs st
                = Inr (map (\<lambda>q. case map_of (cache st) (cache_key (fst q) (snd q)) of
                                   Some v \<Rightarrow> v | None \<Rightarrow> skipped_response) qs, st')
              \<and> net_calls st' = net_calls st \<and> OMDB_RATE_LIMITED st'))
   \<and> (map_of (cache st0) (cache_key t y) = None \<and> \<not> fast0 \<and> \<not> OMDB_RATE_LIMITED st0 \<and> k \<noteq> []
        \<and> error_text (fst (etl_call net0 (TitleLookup k t (year_param y)) st0)) = Inr err
        \<and> py_get (fst (etl_call net0 (TitleLookup k t (year_param y)) st0)) ''Response''
             \<noteq> Inr (JStr ''True'')
        \<and> (contains err ''limit'' \<or> contains err ''invalid api key'')
      \<longrightarrow> (\<exists>v st'. etl_query_omdb (Some k) net0 fast0 t y st0 = Inr (v, st')
                   \<and> OMDB_RATE_LIMITED st'))
   \<and> (map_of (cache st0) (cache_key t y) = None \<and> \<not> fast0 \<and> \<not> OMDB_RATE_LIMITED st0 \<and> k \<noteq> []
        \<and> error_text (fst (enrich_call net0 (TitleLookup k t (year_param y)) st0)) = Inr err
        \<and> (contains err ''request limit'' \<or> contains err ''limit reached''
             \<or> contains err ''invalid api key'')
      \<longrightarrow> (\<exists>v st'. enrich_query_omdb (Some k) net0 fast0 t y st0 = Inr (v, st')
                   \<and> OMDB_RATE_LIMITED st'))"
proof (intro conjI impI)
  assume "OMDB_RATE_LIMITED st"
  then show "\<exists>st'. etl_query_all api net fast qs st
                = Inr (map (\<lambda>q. case map_of (cache st) (cache_key (fst q) (snd q)) of
                                   Some v \<Rightarrow> v | None \<Rightarrow> skipped_response) qs, st')
              \<and> net_calls st' = net_calls st \<and> OMDB_RATE_LIMITED st'"
    by (rule etl_query_all_flagged)
next
  assume "OMDB_RATE_LIMITED st"
  then show "\<exists>st'. enrich_query_all api net fast qs st
                = Inr (map (\<lambda>q. case map_of (cache st) (cache_key (fst q) (snd q)) of
                                   Some v \<Rightarrow> v | None \<Rightarrow> skipped_response) qs, st')
              \<and> net_calls st' = net_calls st \<and> OMDB_RATE_LIMITED st'"
    by (rule enrich_query_all_flagged)
next
  assume a: "map_of (cache st0) (cache_key t y) = None \<and> \<not> fast0 \<and> \<not> OMDB_RATE_LIMITED st0
        \<and> k \<noteq> []
        \<and> error_text (fst (etl_call net0 (TitleLookup k t (year_param y)) st0)) = Inr err
        \<and> py_get (fst (etl_call net0 (TitleLookup k t (year_param y)) st0)) ''Response''
             \<noteq> Inr (JStr ''True'')
        \<and> (contains err ''limit'' \<or> contains err ''invalid api key'')"
  then have "etl_query_omdb (Some k) net0 fast0 t y st0 = etl_lookup k net0 t y st0"
    by (simp add: etl_query_omdb_def)
  moreover from a have "\<exists>v st'. etl_lookup k net0 t y st0 = Inr (v, st') \<and> OMDB_RATE_LIMITED st'"
    by (intro etl_lookup_sets_flag [where err = err]) simp_all
  ultimately show "\<exists>v st'. etl_query_omdb (Some k) net0 fast0 t y st0 = Inr (v, st')
                   \<and> OMDB_RATE_LIMITED st'"
    by simp
next
  assume a: "map_of (cache st0) (cache_key t y) = None \<and> \<not> fast0 \<and> \<not> OMDB_RATE_LIMITED st0
        \<and> k \<noteq> []
        \<and> error_text (fst (enrich_call net0 (TitleLookup k t (year_param y)) st0)) = Inr err
        \<and> (contains err ''request limit'' \<or> contains err ''limit reached''
             \<or> contains err ''invalid api key'')"
  then have "enrich_query_omdb (Some k) net0 fast0 t y st0 = enrich_lookup k net0 t y st0"
    by (simp add: enrich_query_omdb_def)
  moreover from a have "\<exists>v st'. enrich_lookup k net0 t y st0 = Inr (v, st')
                          \<and> OMDB_RATE_LIMITED st'"
    by (intro enrich_lookup_sets_flag [where err = err]) simp_all
  ultimately show "\<exists>v st'. enrich_query_omdb (Some k) net0 fast0 t y st0 = Inr (v, st')
                   \<and> OMDB_RATE_LIMITED st'"
    by simp
qed
theorem rate_limit_flag_ends_network_access_witness:
  "OMDB_RATE_LIMITED toy_story_limited
   \<and> (\<exists>st'. etl_query_all (Some ''k'') found_net False
                [(''Jumanji'', Some 1995), (''Toy Story'', Some 1995)] toy_story_limited
              = Inr ([skipped_response, limit_reached], st')
            \<and> net_calls st' = net_calls toy_story_limited \<and> OMDB_RATE_LIMITED st')
   \<and> (map_of (cache fresh_run) (cache_key ''Toy Story'' (Some 1995)) = None \<and> \<not> False
        \<and> \<not> OMDB_RATE_LIMITED fresh_run \<and> ''k'' \<noteq> []
        \<and> error_text (fst (etl_call limit_net
              (TitleLookup ''k'' ''Toy Story'' (year_param (Some 1995))) fresh_run))
            = Inr ''request limit reached!''
        \<and> py_get (fst (etl_call limit_net
              (TitleLookup ''k'' ''Toy Story'' (year_param (Some 1995))) fresh_run)) ''Response''
             \<noteq> Inr (JStr ''True'')
        \<and> (contains ''request limit reached!'' ''limit''
             \<or> contains ''request limit reached!'' ''invalid api key''))
   \<and> (\<exists>v st'. etl_query_omdb (Some ''k'') limit_net False ''Toy Story'' (Some 1995) fresh_run
                  = Inr (v, st') \<and> OMDB_RATE_LIMITED st')
   \<and> (map_of (cache fresh_run) (cache_key ''Toy Story'' (Some 1995)) = None \<and> \<not> False
        \<and> \<not> OMDB_RATE_LIMITED fresh_run \<and> ''k'' \<noteq> []
        \<and> error_text (fst (enrich_call limit_net
              (TitleLookup ''k'' ''Toy Story'' (year_param (Some 1995))) fresh_run))
            = Inr ''request limit reached!''
        \<and> (contains ''request limit reached!'' ''request limit''
             \<or> contains ''request limit reached!'' ''limit reached''
             \<or> contains ''request limit reached!'' ''invalid api key''))
   \<and> (\<exists>v st'. enrich_query_omdb (Some ''k'') limit_net False ''Toy Story'' (Some 1995) fresh_run
                  = Inr (v, st') \<and> OMDB_RATE_LIMITED st')"
proof -
  note T = rate_limit_flag_ends_network_access
    [where st = toy_story_limited and api = "Some ''k''" and net = found_net and fast = False
       and qs = "[(''Jumanji'', Some 1995), (''Toy Story'', Some 1995)]"
       and ?st0.0 = fresh_run and t = "''Toy Story''" and y = "Some 1995" and ?fast0.0 = False
       and k = "''k''" and ?net0.0 = limit_net and err = "''request limit reached!''"]
  have h1: "OMDB_RATE_LIMITED toy_story_limited"
    by (simp add: toy_story_limited_def)
  have m: "map (\<lambda>q. case map_of (cache toy_story_limited) (cache_key (fst q) (snd q)) of
                      Some v \<Rightarrow> v | None \<Rightarrow> skipped_response)
             [(''Jumanji'', Some 1995), (''Toy Story'', Some 1995)]
           = [skipped_response, limit_reached]"
    by (simp add: jumanji_key toy_story_key toy_story_limited_def)
  have h3: "map_of (cache fresh_run) (cache_key ''Toy Story'' (Some 1995)) = None \<and> \<not> False
        \<and> \<not> OMDB_RATE_LIMITED fresh_run \<and> ''k'' \<noteq> []
        \<and> error_text (fst (etl_call limit_net
              (TitleLookup ''k'' ''Toy Story'' (year_param (Some 1995))) fresh_run))
            = Inr ''request limit reached!''
        \<and> py_get (fst (etl_call limit_net
              (TitleLookup ''k'' ''Toy Story'' (year_param (Some 1995))) fresh_run)) ''Response''
             \<noteq> Inr (JStr ''True'')
        \<and> (contains ''request limit reached!'' ''limit''
             \<or> contains ''request limit reached!'' ''invalid api key'')"
    by (simp add: fresh_run_def etl_call_def limit_net_def limit_reached_def error_text_def
          dict_get_def lower_limit_reached starts_with_def)
  have h4: "map_of (cache fresh_run) (cache_key ''Toy Story'' (Some 1995)) = None \<and> \<not> False
        \<and> \<not> OMDB_RATE_LIMITED fresh_run \<and> ''k'' \<noteq> []
        \<and> error_text (fst (enrich_call limit_net
              (TitleLookup ''k'' ''Toy Story'' (year_param (Some 1995))) fresh_run))
            = Inr ''request limit reached!''
        \<and> (contains ''request limit reached!'' ''request limit''
             \<or> contains ''request limit reached!'' ''limit reached''
             \<or> contains ''request limit reached!'' ''invalid api key'')"
    by (simp add: fresh_run_def enrich_call_def limit_net_def limit_reached_def error_text_def
          dict_get_def lower_limit_reached starts_with_def)
  note c1 = T [THEN conjunct1, rule_format, OF h1, THEN conjunct1, unfolded m]
  note c3 = T [THEN conjunct2, THEN conjunct1, rule_format, OF h3]
  note c4 = T [THEN conjunct2, THEN conjunct2, rule_format, OF h4]
  show ?thesis
    by (rule conjI [OF h1 conjI [OF c1 conjI [OF h3 conjI [OF c3 conjI [OF h4 c4]]]]])
qed

section \<open>Properties of the upsert engine\<close>

lemma unique_msg_names_imdb_id: "contains (lower unique_msg) ''imdb_id''"
  by code_simp

lemma imdb_taken_null: "\<not> imdb_taken rows i JNull"
  by (simp add: imdb_taken_def)

lemma exec_upsert_integrity:
  "exec_upsert s p = Inl (IntegrityError msg) \<Longrightarrow> params_bindable p \<and> msg = unique_msg"
  by (auto simp: exec_upsert_def split: if_splits option.splits)

text \<open>The fallback statement without an external ID always runs to completion.\<close>

lemma exec_fallback_no_imdb:
  "params_bindable p \<Longrightarrow>
   exec_fallback s (p\<lparr>p_imdb_id := JNull\<rparr>)
   = Inr (s\<lparr>movies :=
              (case find (\<lambda>m. m_id m = p_id p) (movies s) of
                 None \<Rightarrow> movies s @ [(inserted_row p)\<lparr>m_imdb_id := JNull\<rparr>]
               | Some old \<Rightarrow>
                   replace_row (p_id p) ((merged_row old p)\<lparr>m_imdb_id := m_imdb_id old\<rparr>)
                     (movies s)),
            executed := Suc (executed s)\<rparr>)"
  by (simp add: exec_fallback_def params_bindable_def imdb_taken_null inserted_row_def
        merged_row_def merged_row_no_imdb_def split: option.splits)

lemma upsert_movie_retries:
  assumes "exec_upsert s p = Inl (IntegrityError msg)"
  shows "upsert_movie s p = exec_fallback s (p\<lparr>p_imdb_id := JNull\<rparr>)"
proof -
  from exec_upsert_integrity [OF assms] have "msg = unique_msg" by simp
  with assms show ?thesis
    by (simp add: upsert_movie_def unique_msg_names_imdb_id)
qed

text \<open>The update-only variant: what is left of the field list without the external ID.\<close>

lemma update_fields_no_imdb_collides:
  "\<not> list_ex (field_collides rows i) (update_fields (data\<lparr>imdb_id := JNull\<rparr>))"
  by (simp add: update_fields_def split: option.splits)

lemma update_fields_no_imdb_bindable:
  "list_all field_bindable (update_fields data) \<Longrightarrow>
   list_all field_bindable (update_fields (data\<lparr>imdb_id := JNull\<rparr>))"
  by (simp add: update_fields_def split: option.splits if_splits)

lemma other_fields_present_iff:
  "other_fields_present data \<longleftrightarrow> update_fields (data\<lparr>imdb_id := JNull\<rparr>) \<noteq> []"
  by (auto simp: other_fields_present_def update_fields_def split: option.splits)

lemma update_movie_integrity:
  assumes "update_movie s i data = Inl (IntegrityError msg)"
  shows "list_all field_bindable (update_fields data)
         \<and> update_fields data = F_imdb_id (imdb_id data) # update_fields (data\<lparr>imdb_id := JNull\<rparr>)"
proof -
  from assms have e: "exec_update s i (update_fields data) = Inl (IntegrityError msg)"
    by (simp add: update_movie_def split: if_splits sum.splits)
  then have b: "list_all field_bindable (update_fields data)"
    and c: "list_ex (field_collides (movies s) i) (update_fields data)"
    by (simp_all add: exec_update_def split: if_splits)
  have "truthy (imdb_id data)"
  proof (rule ccontr)
    assume "\<not> truthy (imdb_id data)"
    then have "update_fields data = update_fields (data\<lparr>imdb_id := JNull\<rparr>)"
      by (simp add: update_fields_def)
    with c update_fields_no_imdb_collides [of "movies s" i data] show False by simp
  qed
  then have "update_fields data
               = F_imdb_id (imdb_id data) # update_fields (data\<lparr>imdb_id := JNull\<rparr>)"
    by (simp add: update_fields_def)
  with b show ?thesis by simp
qed

lemma update_movie_no_imdb:
  assumes "list_all field_bindable (update_fields data)"
  shows "update_movie s i (data\<lparr>imdb_id := JNull\<rparr>)
         = Inr (other_fields_present data,
                s\<lparr>movies := map (\<lambda>m. if m_id m = i
                                       then fold set_field (update_fields (data\<lparr>imdb_id := JNull\<rparr>)) m
                                       else m) (movies s),
                  executed := (if other_fields_present data then Suc (executed s)
                               else executed s)\<rparr>)"
proof (cases "other_fields_present data")
  case True
  then have "update_fields (data\<lparr>imdb_id := JNull\<rparr>) \<noteq> []"
    by (simp add: other_fields_present_iff)
  with True update_fields_no_imdb_bindable [OF assms] show ?thesis
    by (simp add: update_movie_def exec_update_def update_fields_no_imdb_collides)
next
  case False
  then have "update_fields (data\<lparr>imdb_id := JNull\<rparr>) = []"
    by (simp add: other_fields_present_iff)
  with False show ?thesis
    by (simp add: update_movie_def map_idI)
qed

lemma enrich_write_retries:
  assumes "update_movie s i data = Inl (IntegrityError msg)"
  shows "enrich_write s i data
         = Inr (s\<lparr>movies := map (\<lambda>m. if m_id m = i
                                       then fold set_field (update_fields (data\<lparr>imdb_id := JNull\<rparr>)) m
                                       else m) (movies s),
                  executed := (if other_fields_present data then Suc (executed s)
                               else executed s)\<rparr>,
                if other_fields_present data then Enriched else Uncounted)"
proof -
  have b: "list_all field_bindable (update_fields data)"
    by (rule update_movie_integrity [OF assms, THEN conjunct1])
  show ?thesis
  proof (cases "other_fields_present data")
    case True
    with assms update_movie_no_imdb [OF b, of s i] show ?thesis
      by (simp add: enrich_write_def)
  next
    case False
    then have "update_fields (data\<lparr>imdb_id := JNull\<rparr>) = []"
      by (simp add: other_fields_present_iff)
    with False assms show ?thesis
      by (simp add: enrich_write_def map_idI)
  qed
qed

text \<open>Evaluation of the example write.\<close>

lemma remake_key: "cache_key ''Toy Story 3D'' None = ''Toy Story 3D||None''"
  by code_simp

lemma clean_toy_story: "clean_if_any toy_story = Inr (Some toy_story_record)"
  by (simp add: clean_if_any_def clean_omdb_response_def toy_story_def dict_get_def
        parse_runtime_def not_na_def parse_released_def toy_story_record_def)

lemma remake_collides:
  "exec_upsert two_films (params_of remake_row (Some toy_story_record))
   = Inl (IntegrityError unique_msg)"
  by (simp add: exec_upsert_def params_of_def remake_row_def toy_story_record_def
        params_bindable_def two_films_def imdb_taken_def merged_row_def coalesce_def)

lemma remake_update_collides:
  "update_movie two_films 2 toy_story_record = Inl (IntegrityError unique_msg)"
  by (simp add: update_movie_def update_fields_def exec_update_def toy_story_record_def
        two_films_def imdb_taken_def)

text \<open>
  Claim C1. When the write of a movie's record raises the uniqueness violation, the
  insert-or-merge engine runs the fallback statement with the external ID set to
  \<^verbatim>\<open>None\<close>; it succeeds and writes the row that the failed statement would have written,
  except that the external ID keeps its stored value (no value for a new row). The
  update-only engine runs the update again without the external ID, with all the other
  fields of the failed update (no statement when there is none). In both pipelines the
  step of the orchestrator returns normally.
\<close>

theorem uniqueness_violation_is_retried_without_imdb_id:
  "(exec_upsert s p = Inl (IntegrityError msg) \<longrightarrow>
      upsert_movie s p = exec_fallback s (p\<lparr>p_imdb_id := JNull\<rparr>)
      \<and> upsert_movie s p
        = Inr (s\<lparr>movies :=
                   (case find (\<lambda>m. m_id m = p_id p) (movies s) of
                      None \<Rightarrow> movies s @ [(inserted_row p)\<lparr>m_imdb_id := JNull\<rparr>]
                    | Some old \<Rightarrow>
                        replace_row (p_id p) ((merged_row old p)\<lparr>m_imdb_id := m_imdb_id old\<rparr>)
                          (movies s)),
                 executed := Suc (executed s)\<rparr>))
   \<and> (update_movie s i data = Inl (IntegrityError msg) \<longrightarrow>
      update_fields data = F_imdb_id (imdb_id data) # update_fields (data\<lparr>imdb_id := JNull\<rparr>)
      \<and> enrich_write s i data
        = Inr (s\<lparr>movies := map (\<lambda>m. if m_id m = i
                                      then fold set_field (update_fields (data\<lparr>imdb_id := JNull\<rparr>)) m
                                      else m) (movies s),
                 executed := (if other_fields_present data then Suc (executed s)
                              else executed s)\<rparr>,
               if other_fields_present data then Enriched else Uncounted))
   \<and> (etl_query_omdb api net fast (title row) (year row) st = Inr (raw, st1)
        \<and> clean_if_any raw = Inr rec
        \<and> exec_upsert (db st1) (params_of row rec) = Inl (IntegrityError msg)
      \<longrightarrow> (\<exists>s'. etl_movie api net fast row st = Inr (st1\<lparr>db := s'\<rparr>)))
   \<and> (enrich_query_omdb api net fast t y (state pr) = Inr (raw, st1)
        \<and> clean_if_any raw = Inr (Some data)
        \<and> update_movie (db st1) i data = Inl (IntegrityError msg)
      \<longrightarrow> (\<exists>pr'. enrich_one api net fast (i, t, y) pr = Inr pr'))"
proof (intro conjI impI)
  assume a: "exec_upsert s p = Inl (IntegrityError msg)"
  show r: "upsert_movie s p = exec_fallback s (p\<lparr>p_imdb_id := JNull\<rparr>)"
    by (rule upsert_movie_retries [OF a])
  from exec_upsert_integrity [OF a] have "params_bindable p" by simp
  then show "upsert_movie s p
        = Inr (s\<lparr>movies :=
                   (case find (\<lambda>m. m_id m = p_id p) (movies s) of
                      None \<Rightarrow> movies s @ [(inserted_row p)\<lparr>m_imdb_id := JNull\<rparr>]
                    | Some old \<Rightarrow>
                        replace_row (p_id p) ((merged_row old p)\<lparr>m_imdb_id := m_imdb_id old\<rparr>)
                          (movies s)),
                 executed := Suc (executed s)\<rparr>)"
    by (simp only: r exec_fallback_no_imdb)
next
  assume a: "update_movie s i data = Inl (IntegrityError msg)"
  show "update_fields data = F_imdb_id (imdb_id data) # update_fields (data\<lparr>imdb_id := JNull\<rparr>)"
    by (rule update_movie_integrity [OF a, THEN conjunct2])
  show "enrich_write s i data
        = Inr (s\<lparr>movies := map (\<lambda>m. if m_id m = i
                                      then fold set_field (update_fields (data\<lparr>imdb_id := JNull\<rparr>)) m
                                      else m) (movies s),
                 executed := (if other_fields_present data then Suc (executed s)
                              else executed s)\<rparr>,
               if other_fields_present data then Enriched else Uncounted)"
    by (rule enrich_write_retries [OF a])
next
  assume a: "etl_query_omdb api net fast (title row) (year row) st = Inr (raw, st1)
        \<and> clean_if_any raw = Inr rec
        \<and> exec_upsert (db st1) (params_of row rec) = Inl (IntegrityError msg)"
  then have u: "exec_upsert (db st1) (params_of row rec) = Inl (IntegrityError msg)" by simp
  from exec_upsert_integrity [OF u] have b: "params_bindable (params_of row rec)" by simp
  have "upsert_movie (db st1) (params_of row rec)
          = exec_fallback (db st1) ((params_of row rec)\<lparr>p_imdb_id := JNull\<rparr>)"
    by (rule upsert_movie_retries [OF u])
  then obtain s' where "upsert_movie (db st1) (params_of row rec) = Inr s'"
    by (simp only: exec_fallback_no_imdb [OF b])
  with a have "etl_movie api net fast row st = Inr (st1\<lparr>db := s'\<rparr>)"
    by (simp add: etl_movie_def)
  then show "\<exists>s'. etl_movie api net fast row st = Inr (st1\<lparr>db := s'\<rparr>)"
    by (rule exI)
next
  assume a: "enrich_query_omdb api net fast t y (state pr) = Inr (raw, st1)
        \<and> clean_if_any raw = Inr (Some data)
        \<and> update_movie (db st1) i data = Inl (IntegrityError msg)"
  then have u: "update_movie (db st1) i data = Inl (IntegrityError msg)" by simp
  from a enrich_write_retries [OF u]
  show "\<exists>pr'. enrich_one api net fast (i, t, y) pr = Inr pr'"
    by (simp add: enrich_one_def)
qed
theorem uniqueness_violation_is_retried_without_imdb_id_witness:
  "exec_upsert two_films (params_of remake_row (Some toy_story_record))
     = Inl (IntegrityError unique_msg)
   \<and> upsert_movie two_films (params_of remake_row (Some toy_story_record))
     = Inr two_films_retried
   \<and> update_movie two_films 2 toy_story_record = Inl (IntegrityError unique_msg)
   \<and> enrich_write two_films 2 toy_story_record = Inr (two_films_retried, Enriched)
   \<and> (etl_query_omdb None found_net False (title remake_row) (year remake_row) remake_cached
         = Inr (toy_story, remake_cached)
        \<and> clean_if_any toy_story = Inr (Some toy_story_record)
        \<and> exec_upsert (db remake_cached) (params_of remake_row (Some toy_story_record))
         = Inl (IntegrityError unique_msg))
   \<and> (\<exists>s'. etl_movie None found_net False remake_row remake_cached
              = Inr (remake_cached\<lparr>db := s'\<rparr>))
   \<and> (enrich_query_omdb None found_net False ''Toy Story 3D'' None
          (state \<lparr>state = remake_cached, enriched = 0, skipped = 0\<rparr>)
         = Inr (toy_story, remake_cached)
        \<and> clean_if_any toy_story = Inr (Some toy_story_record)
        \<and> update_movie (db remake_cached) 2 toy_story_record
         = Inl (IntegrityError unique_msg))
   \<and> (\<exists>pr'. enrich_one None found_net False (2, ''Toy Story 3D'', None)
               \<lparr>state = remake_cached, enriched = 0, skipped = 0\<rparr> = Inr pr')"
proof -
  note T = uniqueness_violation_is_retried_without_imdb_id
    [where s = two_films and p = "params_of remake_row (Some toy_story_record)"
       and msg = unique_msg and i = 2 and data = toy_story_record and api = None
       and net = found_net and fast = False and row = remake_row and st = remake_cached
       and raw = toy_story and ?st1.0 = remake_cached and rec = "Some toy_story_record"
       and t = "''Toy Story 3D''" and y = None
       and pr = "\<lparr>state = remake_cached, enriched = 0, skipped = 0\<rparr>"]
  have d: "db remake_cached = two_films"
    by (simp add: remake_cached_def)
  have k: "map_of (cache remake_cached) (cache_key ''Toy Story 3D'' None) = Some toy_story"
    by (simp add: remake_key remake_cached_def)
  have h1: "exec_upsert two_films (params_of remake_row (Some toy_story_record))
              = Inl (IntegrityError unique_msg)"
    by (rule remake_collides)
  have h2: "update_movie two_films 2 toy_story_record = Inl (IntegrityError unique_msg)"
    by (rule remake_update_collides)
  have h3: "etl_query_omdb None found_net False (title remake_row) (year remake_row) remake_cached
         = Inr (toy_story, remake_cached)
        \<and> clean_if_any toy_story = Inr (Some toy_story_record)
        \<and> exec_upsert (db remake_cached) (params_of remake_row (Some toy_story_record))
         = Inl (IntegrityError unique_msg)"
  proof (intro conjI)
    show "etl_query_omdb None found_net False (title remake_row) (year remake_row) remake_cached
            = Inr (toy_story, remake_cached)"
      using k by (simp add: etl_query_cached remake_row_def)
    show "clean_if_any toy_story = Inr (Some toy_story_record)"
      by (rule clean_toy_story)
    show "exec_upsert (db remake_cached) (params_of remake_row (Some toy_story_record))
            = Inl (IntegrityError unique_msg)"
      by (simp only: d remake_collides)
  qed
  have h4: "enrich_query_omdb None found_net False ''Toy Story 3D'' None
          (state \<lparr>state = remake_cached, enriched = 0, skipped = 0\<rparr>)
         = Inr (toy_story, remake_cached)
        \<and> clean_if_any toy_story = Inr (Some toy_story_record)
        \<and> update_movie (db remake_cached) 2 toy_story_record
         = Inl (IntegrityError unique_msg)"
  proof (intro conjI)
    show "enrich_query_omdb None found_net False ''Toy Story 3D'' None
            (state \<lparr>state = remake_cached, enriched = 0, skipped = 0\<rparr>)
            = Inr (toy_story, remake_cached)"
      using k by (simp add: enrich_query_cached)
    show "clean_if_any toy_story = Inr (Some toy_story_record)"
      by (rule clean_toy_story)
    show "update_movie (db remake_cached) 2 toy_story_record = Inl (IntegrityError unique_msg)"
      by (simp only: d remake_update_collides)
  qed
  from T [THEN conjunct1, rule_format, OF h1, THEN conjunct2]
  have c1: "upsert_movie two_films (params_of remake_row (Some toy_story_record))
              = Inr two_films_retried"
    by (simp add: params_of_def remake_row_def toy_story_record_def two_films_def
          two_films_retried_def replace_row_def merged_row_def coalesce_def coalesce_opt_def)
  from T [THEN conjunct2, THEN conjunct1, rule_format, OF h2, THEN conjunct2]
  have c2: "enrich_write two_films 2 toy_story_record = Inr (two_films_retried, Enriched)"
    by (simp add: toy_story_record_def two_films_def two_films_retried_def
          update_fields_def other_fields_present_def)
  note c3 = T [THEN conjunct2, THEN conjunct2, THEN conjunct1, rule_format, OF h3]
  note c4 = T [THEN conjunct2, THEN conjunct2, THEN conjunct2, rule_format, OF h4]
  show ?thesis
    by (rule conjI [OF h1 conjI [OF c1 conjI [OF h2 conjI [OF c2 conjI [OF h3
          conjI [OF c3 conjI [OF h4 c4]]]]]]])
qed

section \<open>Properties of the enrichment-only orchestrator\<close>

lemma update_fields_absent:
  "imdb_id data = JNull \<Longrightarrow> director data = JNull \<Longrightarrow> plot data = JNull \<Longrightarrow>
   box_office data = JNull \<Longrightarrow> released data = None \<Longrightarrow> runtime_minutes data = None \<Longrightarrow>
   update_fields data = []"
  by (simp add: update_fields_def)

lemma clean_bare_document: "clean_if_any bare_document = Inr (Some absent_record)"
  by (simp add: clean_if_any_def clean_omdb_response_def bare_document_def dict_get_def
        parse_runtime_def not_na_def parse_released_def absent_record_def)

text \<open>
  Claim C10. When every field of the record is absent, \<^verbatim>\<open>update_movie\<close> builds an empty
  field list, executes no statement (the store, with its count of executed statements,
  is returned as it was) and returns \<^verbatim>\<open>False\<close>; the loop then adds one to \<^verbatim>\<open>skipped\<close>,
  leaves \<^verbatim>\<open>enriched\<close> and the store as they are, and saves the cache.
\<close>

theorem update_movie_without_fields_is_skipped:
  assumes "imdb_id data = JNull" and "director data = JNull" and "plot data = JNull"
    and "box_office data = JNull" and "released data = None" and "runtime_minutes data = None"
  shows "update_fields data = []
         \<and> update_movie s i data = Inr (False, s)
         \<and> enrich_write s i data = Inr (s, Skipped)
         \<and> (enrich_query_omdb api net fast t y (state pr) = Inr (raw, st1)
              \<and> clean_if_any raw = Inr (Some data)
            \<longrightarrow> enrich_one api net fast (i, t, y) pr
                  = Inr (pr\<lparr>state := save_cache st1, skipped := Suc (skipped pr)\<rparr>))"
proof -
  have f: "update_fields data = []"
    by (rule update_fields_absent [OF assms])
  then have u: "update_movie s' i data = Inr (False, s')" for s'
    by (simp add: update_movie_def)
  then have w: "enrich_write s' i data = Inr (s', Skipped)" for s'
    by (simp add: enrich_write_def)
  have "enrich_one api net fast (i, t, y) pr
          = Inr (pr\<lparr>state := save_cache st1, skipped := Suc (skipped pr)\<rparr>)"
    if "enrich_query_omdb api net fast t y (state pr) = Inr (raw, st1)"
      and "clean_if_any raw = Inr (Some data)"
    using that by (simp add: enrich_one_def w tally_def)
  with f u w show ?thesis by simp
qed

theorem update_movie_without_fields_is_skipped_witness:
  "imdb_id absent_record = JNull \<and> director absent_record = JNull
   \<and> plot absent_record = JNull \<and> box_office absent_record = JNull
   \<and> released absent_record = None \<and> runtime_minutes absent_record = None
   \<and> update_movie two_films 2 absent_record = Inr (False, two_films)
   \<and> enrich_query_omdb None found_net False ''Toy Story 3D'' None
        (state \<lparr>state = bare_cached, enriched = 0, skipped = 0\<rparr>) = Inr (bare_document, bare_cached)
   \<and> clean_if_any bare_document = Inr (Some absent_record)
   \<and> enrich_one None found_net False (2, ''Toy Story 3D'', None)
        \<lparr>state = bare_cached, enriched = 0, skipped = 0\<rparr>
      = Inr \<lparr>state = save_cache bare_cached, enriched = 0, skipped = 1\<rparr>"
proof -
  have a: "imdb_id absent_record = JNull" "director absent_record = JNull"
    "plot absent_record = JNull" "box_office absent_record = JNull"
    "released absent_record = None" "runtime_minutes absent_record = None"
    by (simp_all add: absent_record_def)
  note T = update_movie_without_fields_is_skipped
    [OF a, where s = two_films and i = 2 and api = None and net = found_net and fast = False
       and t = "''Toy Story 3D''" and y = None and raw = bare_document and ?st1.0 = bare_cached
       and pr = "\<lparr>state = bare_cached, enriched = 0, skipped = 0\<rparr>"]
  have q: "enrich_query_omdb None found_net False ''Toy Story 3D'' None
        (state \<lparr>state = bare_cached, enriched = 0, skipped = 0\<rparr>) = Inr (bare_document, bare_cached)"
    by (simp add: enrich_query_cached remake_key bare_cached_def)
  have c: "clean_if_any bare_document = Inr (Some absent_record)"
    by (rule clean_bare_document)
  have u: "update_movie two_films 2 absent_record = Inr (False, two_films)"
    by (rule T [THEN conjunct2, THEN conjunct1])
  from T [THEN conjunct2, THEN conjunct2, THEN conjunct2, rule_format, OF conjI [OF q c]]
  have e: "enrich_one None found_net False (2, ''Toy Story 3D'', None)
        \<lparr>state = bare_cached, enriched = 0, skipped = 0\<rparr>
      = Inr \<lparr>state = save_cache bare_cached, enriched = 0, skipped = 1\<rparr>"
    by simp
  from a u q c e show ?thesis by (intro conjI)
qed

text \<open>A record for which the client has no usable data is counted as skipped and leaves
  the cache file as it was; a record that reaches the write is followed by a save.\<close>

lemma enrich_one_skip_keeps_file:
  assumes "enrich_query_omdb api net fast t y (state pr) = Inr (raw, st1)"
    and "clean_if_any raw = Inr None"
  shows "enrich_one api net fast (i, t, y) pr = Inr (pr\<lparr>state := st1, skipped := Suc (skipped pr)\<rparr>)"
  using assms by (simp add: enrich_one_def)

lemma enrich_one_write_saves:
  assumes "enrich_query_omdb api net fast t y (state pr) = Inr (raw, st1)"
    and "clean_if_any raw = Inr (Some data)"
    and "enrich_one api net fast (i, t, y) pr = Inr pr'"
  shows "cache_file (state pr') = Some (cache (state pr'))"
  using assms
  by (auto simp: enrich_one_def tally_def save_cache_def split: sum.splits outcome.splits)

text \<open>
  Claim C8. In enrichment-only mode the cache is to be saved after every processed
  record, skipped ones included. In fast mode on a store whose second film is a
  candidate, the film is looked up, the skipped failure enters the cache, the record is
  counted as skipped, and the cache file is still absent when the body of the loop ends:
  the \<^verbatim>\<open>continue\<close> of that branch passes the \<^verbatim>\<open>save_cache\<close> at the end of the body.
\<close>

theorem skipped_record_is_not_saved:
  "enrich_one None found_net True (2, ''Toy Story 3D'', None)
     \<lparr>state = rated_run, enriched = 0, skipped = 0\<rparr>
   = Inr \<lparr>state = rated_run_skipped, enriched = 0, skipped = 1\<rparr>
   \<and> cache rated_run_skipped = [(''Toy Story 3D||None'', skipped_response)]
   \<and> cache_file rated_run_skipped = None"
  by (simp add: enrich_one_def enrich_query_omdb_def remake_key rated_run_def fresh_run_def
        rated_run_skipped_def cache_put_def clean_if_any_def clean_omdb_response_def
        skipped_response_def failure_def dict_get_def)

section \<open>Properties of the full-load orchestrator\<close>

text \<open>The metadata phase does not touch the cache file; \<^verbatim>\<open>main\<close> writes it once, after the
  loop over the movie rows.\<close>

lemma etl_call_file: "cache_file (snd (etl_call net req st)) = cache_file st"
  by (simp add: etl_call_def)

lemma etl_search_file:
  "etl_search k net t y data st = Inr (v, st') \<Longrightarrow> cache_file st' = cache_file st"
  by (auto simp: etl_search_def etl_call_def Let_def cache_put_def
           split: prod.splits sum.splits option.splits if_splits)

lemma etl_lookup_file:
  "etl_lookup k net t y st = Inr (v, st') \<Longrightarrow> cache_file st' = cache_file st"
  by (auto simp: etl_lookup_def etl_call_def Let_def cache_put_def
           split: prod.splits sum.splits if_splits dest!: etl_search_file)

lemma etl_query_file:
  "etl_query_omdb api net fast t y st = Inr (v, st') \<Longrightarrow> cache_file st' = cache_file st"
  by (auto simp: etl_query_omdb_def Let_def cache_put_def split: option.splits if_splits
           dest: etl_lookup_file)

lemma etl_movie_file:
  "etl_movie api net fast row st = Inr st' \<Longrightarrow> cache_file st' = cache_file st"
  by (auto simp: etl_movie_def split: sum.splits prod.splits dest: etl_query_file)

lemma etl_movies_file:
  "etl_movies api net fast rows st = Inr st' \<Longrightarrow> cache_file st' = cache_file st"
proof (induction rows arbitrary: st)
  case Nil
  then show ?case by simp
next
  case (Cons row rows)
  then show ?case
    by (auto split: sum.splits dest: etl_movie_file)
qed

lemma etl_main_saves_cache:
  "etl_main api net dup limit fast movies_csv ratings_df st = Inr (st', report, inserted) \<Longrightarrow>
   cache_file st' = Some (cache st')"
  by (auto simp: etl_main_def Let_def save_cache_def split: sum.splits prod.splits)

text \<open>The metadata phase leaves the ratings alone and adds to the identifiers in the store
  exactly those of the rows it processes.\<close>

lemma etl_search_db:
  "etl_search k net t y data st = Inr (v, st') \<Longrightarrow> db st' = db st"
  by (auto simp: etl_search_def etl_call_def Let_def cache_put_def
           split: prod.splits sum.splits option.splits if_splits)

lemma etl_lookup_db:
  "etl_lookup k net t y st = Inr (v, st') \<Longrightarrow> db st' = db st"
  by (auto simp: etl_lookup_def etl_call_def Let_def cache_put_def
           split: prod.splits sum.splits if_splits dest!: etl_search_db)

lemma etl_query_db:
  "etl_query_omdb api net fast t y st = Inr (v, st') \<Longrightarrow> db st' = db st"
  by (auto simp: etl_query_omdb_def Let_def cache_put_def split: option.splits if_splits
           dest: etl_lookup_db)

lemma find_Some_holds: "find P xs = Some x \<Longrightarrow> P x \<and> x \<in> set xs"
  by (induction xs) (auto split: if_splits)

lemma replace_row_ids:
  "m_id new = i \<Longrightarrow> map m_id (replace_row i new rows) = map m_id rows"
  by (induction rows) (simp_all add: replace_row_def)

lemma exec_upsert_ids:
  assumes "exec_upsert s p = Inr s'"
  shows "ratings s' = ratings s \<and> m_id ` set (movies s') = insert (p_id p) (m_id ` set (movies s))"
proof (cases "find (\<lambda>m. m_id m = p_id p) (movies s)")
  case None
  with assms show ?thesis
    by (auto simp: exec_upsert_def inserted_row_def split: if_splits)
next
  case (Some old)
  from find_Some_holds [OF Some] have o: "m_id old = p_id p" "old \<in> set (movies s)"
    by simp_all
  have "m_id (merged_row old p) = p_id p"
    by (simp add: merged_row_def o)
  from replace_row_ids [OF this, of "movies s"]
  have "m_id ` set (replace_row (p_id p) (merged_row old p) (movies s)) = m_id ` set (movies s)"
    by (metis set_map)
  moreover from o have "insert (p_id p) (m_id ` set (movies s)) = m_id ` set (movies s)"
    by force
  ultimately show ?thesis
    using assms Some by (auto simp: exec_upsert_def split: if_splits)
qed

lemma exec_fallback_ids:
  assumes "exec_fallback s p = Inr s'"
  shows "ratings s' = ratings s \<and> m_id ` set (movies s') = insert (p_id p) (m_id ` set (movies s))"
proof (cases "find (\<lambda>m. m_id m = p_id p) (movies s)")
  case None
  with assms show ?thesis
    by (auto simp: exec_fallback_def inserted_row_def split: if_splits)
next
  case (Some old)
  from find_Some_holds [OF Some] have o: "m_id old = p_id p" "old \<in> set (movies s)"
    by simp_all
  have "m_id (merged_row_no_imdb old p) = p_id p"
    by (simp add: merged_row_no_imdb_def o)
  from replace_row_ids [OF this, of "movies s"]
  have "m_id ` set (replace_row (p_id p) (merged_row_no_imdb old p) (movies s))
          = m_id ` set (movies s)"
    by (metis set_map)
  moreover from o have "insert (p_id p) (m_id ` set (movies s)) = m_id ` set (movies s)"
    by force
  ultimately show ?thesis
    using assms Some by (auto simp: exec_fallback_def split: if_splits)
qed

lemma upsert_movie_ids:
  assumes "upsert_movie s p = Inr s'"
  shows "ratings s' = ratings s \<and> m_id ` set (movies s') = insert (p_id p) (m_id ` set (movies s))"
proof (cases "exec_upsert s p")
  case (Inr s1)
  with assms have "s' = s1" by (simp add: upsert_movie_def)
  with exec_upsert_ids [OF Inr] show ?thesis by simp
next
  case (Inl e)
  with assms have "exec_fallback s (p\<lparr>p_imdb_id := JNull\<rparr>) = Inr s'"
    by (cases e) (simp_all add: upsert_movie_def split: if_splits)
  from exec_fallback_ids [OF this] show ?thesis by simp
qed

lemma etl_movie_ids:
  assumes "etl_movie api net fast row st = Inr st'"
  shows "ratings (db st') = ratings (db st)
         \<and> m_id ` set (movies (db st')) = insert (movieId row) (m_id ` set (movies (db st)))"
proof -
  from assms obtain raw st1 rec s' where
    q: "etl_query_omdb api net fast (title row) (year row) st = Inr (raw, st1)"
    and u: "upsert_movie (db st1) (params_of row rec) = Inr s'"
    and r: "st' = st1\<lparr>db := s'\<rparr>"
    by (auto simp: etl_movie_def split: sum.splits prod.splits)
  from etl_query_db [OF q] have d: "db st1 = db st" .
  have "p_id (params_of row rec) = movieId row"
    by (simp add: params_of_def)
  with upsert_movie_ids [OF u] d r show ?thesis by simp
qed

lemma etl_movies_ids:
  "etl_movies api net fast rows st = Inr st' \<Longrightarrow>
   ratings (db st') = ratings (db st)
   \<and> m_id ` set (movies (db st')) = m_id ` set (movies (db st)) \<union> movieId ` set rows"
proof (induction rows arbitrary: st)
  case Nil
  then show ?case by simp
next
  case (Cons row rows)
  from Cons.prems obtain st1 where
    a: "etl_movie api net fast row st = Inr st1"
    and b: "etl_movies api net fast rows st1 = Inr st'"
    by (auto split: sum.splits)
  from etl_movie_ids [OF a] Cons.IH [OF b] show ?case by auto
qed

text \<open>The ratings phase only adds rows, and every row it is given ends up in the table or
  is a duplicate of a row there.\<close>

lemma insert_rating_grows: "set (ratings s) \<subseteq> set (ratings (insert_rating dup r s))"
  by (auto simp: insert_rating_def)

lemma insert_rating_movies: "movies (insert_rating dup r s) = movies s"
  by (simp add: insert_rating_def)

lemma fold_insert_rating_movies: "movies (fold (insert_rating dup) rs s) = movies s"
  by (induction rs arbitrary: s) (simp_all add: insert_rating_movies)

lemma fold_insert_rating_grows: "set (ratings s) \<subseteq> set (ratings (fold (insert_rating dup) rs s))"
proof (induction rs arbitrary: s)
  case Nil
  then show ?case by simp
next
  case (Cons r rs)
  have "set (ratings s) \<subseteq> set (ratings (insert_rating dup r s))"
    by (rule insert_rating_grows)
  also have "\<dots> \<subseteq> set (ratings (fold (insert_rating dup) rs (insert_rating dup r s)))"
    by (rule Cons.IH)
  finally show ?case by simp
qed

lemma fold_insert_rating_only:
  "set (ratings (fold (insert_rating dup) rs s)) \<subseteq> set (ratings s) \<union> set rs"
proof (induction rs arbitrary: s)
  case Nil
  then show ?case by simp
next
  case (Cons r rs)
  have "set (ratings (insert_rating dup r s)) \<subseteq> set (ratings s) \<union> {r}"
    by (auto simp: insert_rating_def)
  with Cons.IH [of "insert_rating dup r s"] show ?case by auto
qed

lemma fold_insert_rating_all:
  "r \<in> set rs \<Longrightarrow>
   r \<in> set (ratings (fold (insert_rating dup) rs s))
   \<or> (\<exists>r' \<in> set (ratings (fold (insert_rating dup) rs s)). dup r r')"
proof (induction rs arbitrary: s)
  case Nil
  then show ?case by simp
next
  case (Cons x rs)
  show ?case
  proof (cases "r \<in> set rs")
    case True
    from Cons.IH [OF True, of "insert_rating dup x s"] show ?thesis by simp
  next
    case False
    with Cons.prems have rx: "r = x" by simp
    have "x \<in> set (ratings (insert_rating dup x s))
          \<or> (\<exists>r' \<in> set (ratings (insert_rating dup x s)). dup x r')"
      by (auto simp: insert_rating_def list_ex_iff)
    moreover have "set (ratings (insert_rating dup x s))
                     \<subseteq> set (ratings (fold (insert_rating dup) rs (insert_rating dup x s)))"
      by (rule fold_insert_rating_grows)
    ultimately show ?thesis using rx by auto
  qed
qed

lemma length_filter_complement:
  "length xs - length (filter P xs) = length (filter (\<lambda>x. \<not> P x) xs)"
  using sum_length_filter_compl [of P xs] by simp

text \<open>What the ratings phase does to a store, given the movie rows of the run.\<close>

lemma load_ratings_filters:
  assumes "load_ratings dup movies_df ratings_df s = (s', report, inserted)"
  shows "set (ratings s')
           \<subseteq> set (ratings s)
             \<union> {r \<in> set ratings_df. r_movie_id r \<in> m_id ` set (movies s) \<union> movieId ` set movies_df}
         \<and> (\<forall>r \<in> set ratings_df.
               r_movie_id r \<in> m_id ` set (movies s) \<union> movieId ` set movies_df \<longrightarrow>
                 r \<in> set (ratings s') \<or> (\<exists>r' \<in> set (ratings s'). dup r r'))
         \<and> dropped s movies_df ratings_df
             = length (filter (\<lambda>r. r_movie_id r \<notin> m_id ` set (movies s) \<union> movieId ` set movies_df)
                         ratings_df)
         \<and> report = (if 0 < dropped s movies_df ratings_df
                      then Some (dropped s movies_df ratings_df) else None)
         \<and> inserted
             = length (filter (\<lambda>r. r_movie_id r \<in> m_id ` set (movies s) \<union> movieId ` set movies_df)
                         ratings_df)
         \<and> movies s' = movies s"
proof -
  let ?valid = "m_id ` set (movies s) \<union> movieId ` set movies_df"
  let ?kept = "filter (\<lambda>r. r_movie_id r \<in> ?valid) ratings_df"
  have v: "valid_movie_ids s movies_df = ?valid"
    by (simp add: valid_movie_ids_def)
  have k: "ratings_df_filtered s movies_df ratings_df = ?kept"
    by (simp add: ratings_df_filtered_def v)
  from assms have s': "s' = fold (insert_rating dup) ?kept s"
    and rep: "report = dropped_report s movies_df ratings_df"
    and ins: "inserted = length ?kept"
    by (simp_all add: load_ratings_def k)
  have 1: "set (ratings s') \<subseteq> set (ratings s) \<union> {r \<in> set ratings_df. r_movie_id r \<in> ?valid}"
    using fold_insert_rating_only [of dup ?kept s] by (simp add: s')
  have 2: "\<forall>r \<in> set ratings_df. r_movie_id r \<in> ?valid \<longrightarrow>
             r \<in> set (ratings s') \<or> (\<exists>r' \<in> set (ratings s'). dup r r')"
  proof (intro ballI impI)
    fix r assume "r \<in> set ratings_df" and "r_movie_id r \<in> ?valid"
    then have "r \<in> set ?kept" by simp
    from fold_insert_rating_all [OF this, of dup s]
    show "r \<in> set (ratings s') \<or> (\<exists>r' \<in> set (ratings s'). dup r r')"
      by (simp only: s')
  qed
  have 3: "dropped s movies_df ratings_df
             = length (filter (\<lambda>r. r_movie_id r \<notin> ?valid) ratings_df)"
    by (simp only: dropped_def k length_filter_complement)
  have 4: "report = (if 0 < dropped s movies_df ratings_df
                      then Some (dropped s movies_df ratings_df) else None)"
    by (simp add: rep dropped_report_def)
  have 5: "movies s' = movies s"
    by (simp only: s' fold_insert_rating_movies)
  from 1 2 3 4 ins 5 show ?thesis by (intro conjI)
qed

lemma load_ratings_example:
  "load_ratings same_user_and_movie [remake_row] ratings_file two_films
     = (two_films_rated, Some 1, 1)
   \<and> dropped two_films [remake_row] ratings_file = 1
   \<and> movies two_films_rated = movies two_films"
proof -
  have h: "load_ratings same_user_and_movie [remake_row] ratings_file two_films
             = (two_films_rated, Some 1, 1)"
    by (simp add: load_ratings_def ratings_df_filtered_def valid_movie_ids_def two_films_def
          remake_row_def ratings_file_def insert_rating_def same_user_and_movie_def
          dropped_report_def dropped_def two_films_rated_def)
  note T = load_ratings_filters [OF h]
  from T [THEN conjunct2, THEN conjunct2, THEN conjunct1]
  have d: "dropped two_films [remake_row] ratings_file = 1"
    by (simp add: two_films_def remake_row_def ratings_file_def)
  have m: "movies two_films_rated = movies two_films"
    by (rule T [THEN conjunct2, THEN conjunct2, THEN conjunct2, THEN conjunct2, THEN conjunct2])
  from h d m show ?thesis by (intro conjI)
qed

text \<open>
  Claim C6. In full-load mode, when \<^verbatim>\<open>main\<close> returns, the ratings table has gained no row
  but rows of the ratings file whose movie identifier is among the identifiers that were
  in the store before the run or among those of the movie rows processed in the run (the
  movie file after the row cap); each such row of the file is in the table or is ignored
  as a duplicate of a row there. \<^verbatim>\<open>inserted\<close> is the number of such rows; the number of
  the other rows, which are dropped, is reported when it is positive.
\<close>

theorem full_load_inserts_only_ratings_of_known_movies:
  assumes "etl_main api net dup limit fast movies_csv ratings_df st = Inr (st', report, inserted)"
  shows "set (ratings (db st'))
           \<subseteq> set (ratings (db st))
             \<union> {r \<in> set ratings_df.
                  r_movie_id r \<in> m_id ` set (movies (db st))
                                   \<union> movieId ` set (apply_limit limit movies_csv)}
         \<and> (\<forall>r \<in> set ratings_df.
               r_movie_id r \<in> m_id ` set (movies (db st))
                                \<union> movieId ` set (apply_limit limit movies_csv) \<longrightarrow>
                 r \<in> set (ratings (db st')) \<or> (\<exists>r' \<in> set (ratings (db st')). dup r r'))
         \<and> report
             = (if 0 < length (filter (\<lambda>r. r_movie_id r \<notin> m_id ` set (movies (db st))
                                          \<union> movieId ` set (apply_limit limit movies_csv))
                                 ratings_df)
                then Some (length (filter (\<lambda>r. r_movie_id r \<notin> m_id ` set (movies (db st))
                                          \<union> movieId ` set (apply_limit limit movies_csv))
                                 ratings_df))
                else None)
         \<and> inserted
             = length (filter (\<lambda>r. r_movie_id r \<in> m_id ` set (movies (db st))
                                       \<union> movieId ` set (apply_limit limit movies_csv))
                         ratings_df)"
proof -
  let ?df = "apply_limit limit movies_csv"
  from assms obtain st1 where
    m: "etl_movies api net fast ?df (st\<lparr>cache := load_cache (cache_file st)\<rparr>) = Inr st1"
    and l: "load_ratings dup ?df ratings_df (db st1) = (db st', report, inserted)"
    by (auto simp: etl_main_def Let_def save_cache_def split: sum.splits prod.splits)
  from etl_movies_ids [OF m]
  have rt: "ratings (db st1) = ratings (db st)"
    and ids: "m_id ` set (movies (db st1)) = m_id ` set (movies (db st)) \<union> movieId ` set ?df"
    by simp_all
  have valid: "m_id ` set (movies (db st1)) \<union> movieId ` set ?df
                 = m_id ` set (movies (db st)) \<union> movieId ` set ?df"
    unfolding ids by blast
  note T = load_ratings_filters [OF l, unfolded valid rt]
  have 1: "set (ratings (db st'))
           \<subseteq> set (ratings (db st))
             \<union> {r \<in> set ratings_df.
                  r_movie_id r \<in> m_id ` set (movies (db st)) \<union> movieId ` set ?df}"
    by (rule T [THEN conjunct1])
  have 2: "\<forall>r \<in> set ratings_df.
               r_movie_id r \<in> m_id ` set (movies (db st)) \<union> movieId ` set ?df \<longrightarrow>
                 r \<in> set (ratings (db st')) \<or> (\<exists>r' \<in> set (ratings (db st')). dup r r')"
    by (rule T [THEN conjunct2, THEN conjunct1])
  have d: "dropped (db st1) ?df ratings_df
             = length (filter (\<lambda>r. r_movie_id r \<notin> m_id ` set (movies (db st))
                                          \<union> movieId ` set ?df) ratings_df)"
    by (rule T [THEN conjunct2, THEN conjunct2, THEN conjunct1])
  have 3: "report
             = (if 0 < length (filter (\<lambda>r. r_movie_id r \<notin> m_id ` set (movies (db st))
                                          \<union> movieId ` set ?df) ratings_df)
                then Some (length (filter (\<lambda>r. r_movie_id r \<notin> m_id ` set (movies (db st))
                                          \<union> movieId ` set ?df) ratings_df))
                else None)"
    using T [THEN conjunct2, THEN conjunct2, THEN conjunct2, THEN conjunct1]
    by (simp only: d)
  have 4: "inserted
             = length (filter (\<lambda>r. r_movie_id r \<in> m_id ` set (movies (db st))
                                       \<union> movieId ` set ?df) ratings_df)"
    by (rule T [THEN conjunct2, THEN conjunct2, THEN conjunct2, THEN conjunct2, THEN conjunct1])
  show ?thesis
    by (rule conjI [OF 1 conjI [OF 2 conjI [OF 3 4]]])
qed

theorem full_load_inserts_only_ratings_of_known_movies_witness:
  "etl_main None found_net same_user_and_movie (Some 1) True movies_file ratings_file rated_run
     = Inr (full_load_result, Some 1, 1)
   \<and> (1::nat)
       = length (filter (\<lambda>r. r_movie_id r \<in> m_id ` set (movies (db rated_run))
                                 \<union> movieId ` set (apply_limit (Some 1) movies_file))
                   ratings_file)
   \<and> set (ratings (db full_load_result))
       \<subseteq> set (ratings (db rated_run))
         \<union> {r \<in> set ratings_file.
              r_movie_id r \<in> m_id ` set (movies (db rated_run))
                               \<union> movieId ` set (apply_limit (Some 1) movies_file)}"
proof -
  have k: "cache_key ''Toy Story 3D'' None = ''Toy Story 3D||None''"
    by (rule remake_key)
  have q: "etl_movies None found_net True [remake_row]
             (rated_run\<lparr>cache := load_cache (cache_file rated_run)\<rparr>)
           = Inr (rated_run\<lparr>cache := [(''Toy Story 3D||None'', skipped_response)],
                            db := two_films\<lparr>executed := 1\<rparr>\<rparr>)"
    by (simp add: etl_movie_def etl_query_omdb_def k rated_run_def fresh_run_def load_cache_def
          remake_row_def cache_put_def clean_if_any_def clean_omdb_response_def
          skipped_response_def failure_def dict_get_def params_of_def upsert_movie_def
          exec_upsert_def params_bindable_def two_films_def imdb_taken_def merged_row_def
          coalesce_def coalesce_opt_def replace_row_def)
  have a: "apply_limit (Some 1) movies_file = [remake_row]"
    by (simp add: apply_limit_def head_def movies_file_def)
  have h: "etl_main None found_net same_user_and_movie (Some 1) True movies_file ratings_file
             rated_run = Inr (full_load_result, Some 1, 1)"
    unfolding etl_main_def a Let_def q
    by (simp add: save_cache_def load_ratings_def ratings_df_filtered_def
          valid_movie_ids_def dropped_report_def dropped_def insert_rating_def
          same_user_and_movie_def ratings_file_def two_films_def remake_row_def
          full_load_result_def rated_run_def fresh_run_def)
  note T = full_load_inserts_only_ratings_of_known_movies [OF h]
  show ?thesis
    by (rule conjI [OF h conjI [OF T [THEN conjunct2, THEN conjunct2, THEN conjunct2]
          T [THEN conjunct1]]])
qed

section \<open>Properties of the candidate query\<close>






section \<open>Sample values of the normalizer's parsers\<close>

lemma runtime_of_142_min: "parse_runtime (JStr ''142 min'') = Inr (Some 142)"
  by code_simp

lemma runtime_of_marker: "parse_runtime (JStr ''N/A'') = Inr None"
  by code_simp

lemma released_of_marker: "parse_released (JStr ''N/A'') = None"
  by (simp add: parse_released_def)

lemma released_day_month_year: "parse_released (JStr ''01 Jan 1995'') = Some ''1995-01-01''"
  by code_simp

lemma released_iso: "parse_released (JStr ''1995-01-01'') = Some ''1995-01-01''"
  by code_simp

lemma released_unknown_format: "parse_released (JStr ''January 1995'') = None"
  by code_simp

end
